theory Spec2Isabelle
  imports Complex_Main "HOL-Library.Multiset"
begin

section \<open>Numbers and Python errors\<close>

text \<open>
  The program computes on IEEE doubles (Python \<^verbatim>\<open>float\<close> and numpy \<^verbatim>\<open>float64\<close>).
  A finite double is a real number \<open>m * 2\<^sup>c\<close> with \<open>\<bar>m\<bar> < 2\<^sup>5\<^sup>3\<close> and
  \<open>-1074 \<le> c \<le> 971\<close>, and every arithmetic operation returns the double nearest to the
  exact result, a tie going to the even \<open>m\<close>. \<open>fl x\<close> is that double for the exact
  result \<open>x\<close>, with the exponent not bounded above: a value of magnitude \<open>2\<^sup>1\<^sup>0\<^sup>2\<^sup>4\<close> or
  more stands for an overflow to \<^verbatim>\<open>inf\<close>.
\<close>

definition round_half_even :: "real \<Rightarrow> int" where
  "round_half_even y =
     (if y - of_int \<lfloor>y\<rfloor> < 1 / 2 then \<lfloor>y\<rfloor>
      else if 1 / 2 < y - of_int \<lfloor>y\<rfloor> then \<lfloor>y\<rfloor> + 1
      else if even \<lfloor>y\<rfloor> then \<lfloor>y\<rfloor> else \<lfloor>y\<rfloor> + 1)"

text \<open>
  The exponent of the last place of the doubles around \<open>x\<close>: 52 below the exponent of
  \<open>x\<close>, and \<open>-1074\<close> in the subnormal range.
\<close>

definition ulp_exponent :: "real \<Rightarrow> int" where
  "ulp_exponent x = max (\<lfloor>log 2 \<bar>x\<bar>\<rfloor> - 52) (- 1074)"

definition fl :: "real \<Rightarrow> real" where
  "fl x =
     (if x = 0 then 0
      else of_int (round_half_even (x / 2 powi ulp_exponent x)) * 2 powi ulp_exponent x)"

text \<open>
  Rounding is modelled where it decides which list entry is read, how many terms are
  summed, or whether two results are equal: in the time step
  \<^verbatim>\<open>maturity_T / iteration_times\<close>, in the time \<^verbatim>\<open>maturity_T - Delta\<close> of the payoff,
  in the quotients \<^verbatim>\<open>time / self.timestep\<close> that \<^verbatim>\<open>int\<close> truncates to list indices,
  and in the sums and quotients of \<^verbatim>\<open>cumulative_average_of_list\<close>. Everywhere else
  (the curve, the calibration functions, the values on the simulated path, the value of
  the payoff and of the discount factor) finite values are idealised as real numbers:
  rounding, overflow and underflow are not modelled there. The parameters are taken as
  given; in the program they are doubles, and \<open>iteration_times\<close> an integer that
  its conversion to a double does not change.

  \<open>NonFinite\<close> stands for \<^verbatim>\<open>inf\<close>, \<^verbatim>\<open>-inf\<close> and \<^verbatim>\<open>nan\<close>, which numpy
  returns (with a RuntimeWarning, no exception) for a division by zero and for the square
  root of a negative number, and for every value computed from one of them: once a value
  is \<open>NonFinite\<close> the model no longer follows it (so \<^verbatim>\<open>1/inf\<close>, \<^verbatim>\<open>exp(-inf)\<close> and
  \<^verbatim>\<open>max(0, nan)\<close>, which are finite in the program, are \<open>NonFinite\<close> here).
\<close>

datatype num = Fin real | NonFinite

text \<open>The exceptions the modelled code can raise.\<close>

datatype error = ZeroDivisionError | IndexError | ValueError | OverflowError

definition bind_err :: "error + 'a \<Rightarrow> ('a \<Rightarrow> error + 'b) \<Rightarrow> error + 'b" where
  "bind_err m f = (case m of Inl err \<Rightarrow> Inl err | Inr v \<Rightarrow> f v)"

fun num_add :: "num \<Rightarrow> num \<Rightarrow> num" where
  "num_add (Fin x) (Fin y) = Fin (x + y)"
| "num_add _ _ = NonFinite"

fun num_sub :: "num \<Rightarrow> num \<Rightarrow> num" where
  "num_sub (Fin x) (Fin y) = Fin (x - y)"
| "num_sub _ _ = NonFinite"

fun num_mul :: "num \<Rightarrow> num \<Rightarrow> num" where
  "num_mul (Fin x) (Fin y) = Fin (x * y)"
| "num_mul _ _ = NonFinite"

text \<open>numpy division: a zero divisor gives \<^verbatim>\<open>inf\<close> or \<^verbatim>\<open>nan\<close>, not an exception.\<close>

fun num_div :: "num \<Rightarrow> num \<Rightarrow> num" where
  "num_div (Fin x) (Fin y) = (if y = 0 then NonFinite else Fin (x / y))"
| "num_div _ _ = NonFinite"

fun num_neg :: "num \<Rightarrow> num" where
  "num_neg (Fin x) = Fin (- x)"
| "num_neg NonFinite = NonFinite"

fun num_pow :: "num \<Rightarrow> nat \<Rightarrow> num" where
  "num_pow (Fin x) k = Fin (x ^ k)"
| "num_pow NonFinite k = NonFinite"

fun np_exp :: "num \<Rightarrow> num" where
  "np_exp (Fin x) = Fin (exp x)"
| "np_exp NonFinite = NonFinite"

text \<open>\<^verbatim>\<open>np.sqrt\<close> of a negative number is \<^verbatim>\<open>nan\<close>.\<close>

definition np_sqrt :: "real \<Rightarrow> num" where
  "np_sqrt x = (if x < 0 then NonFinite else Fin (sqrt x))"

text \<open>Python's \<^verbatim>\<open>max(0, x)\<close>.\<close>

fun py_max0 :: "num \<Rightarrow> num" where
  "py_max0 (Fin x) = Fin (max 0 x)"
| "py_max0 NonFinite = NonFinite"

text \<open>
  The result of a double operation whose exact result is \<open>x\<close>, and the sum and the
  quotient of two doubles (in numpy, and for a non-zero divisor in Python).
\<close>

definition float_of_real :: "real \<Rightarrow> num" where
  "float_of_real x = (if 2 ^ 1024 \<le> \<bar>fl x\<bar> then NonFinite else Fin (fl x))"

fun float_add :: "num \<Rightarrow> num \<Rightarrow> num" where
  "float_add (Fin x) (Fin y) = float_of_real (x + y)"
| "float_add _ _ = NonFinite"

fun float_div :: "num \<Rightarrow> num \<Rightarrow> num" where
  "float_div (Fin x) (Fin y) = (if y = 0 then NonFinite else float_of_real (x / y))"
| "float_div _ _ = NonFinite"

text \<open>
  Division of Python numbers: a zero divisor raises. \<open>py_div\<close> is the idealised
  quotient, \<open>py_float_div\<close> the quotient as a double.
\<close>

definition py_div :: "real \<Rightarrow> real \<Rightarrow> error + real" where
  "py_div x y = (if y = 0 then Inl ZeroDivisionError else Inr (x / y))"

definition py_float_div :: "real \<Rightarrow> real \<Rightarrow> error + real" where
  "py_float_div x y = (if y = 0 then Inl ZeroDivisionError else Inr (fl (x / y)))"

text \<open>
  Python's \<^verbatim>\<open>int(x)\<close> on a float truncates towards zero, and raises OverflowError for
  \<^verbatim>\<open>inf\<close>.
\<close>

definition py_int :: "real \<Rightarrow> error + int" where
  "py_int x =
     (if 2 ^ 1024 \<le> \<bar>x\<bar> then Inl OverflowError
      else Inr (if 0 \<le> x then \<lfloor>x\<rfloor> else \<lceil>x\<rceil>))"

text \<open>
  Indexing a Python list of length \<open>len\<close> with \<open>i\<close>: an index from \<open>-len\<close> to \<open>-1\<close>
  counts from the end; any other index outside \<open>0 .. len - 1\<close> raises IndexError
  (\<open>None\<close>).
\<close>

definition py_index :: "nat \<Rightarrow> int \<Rightarrow> nat option" where
  "py_index len i =
     (if 0 \<le> i \<and> i < int len then Some (nat i)
      else if - int len \<le> i \<and> i < 0 then Some (nat (int len + i))
      else None)"

text \<open>Reading \<^verbatim>\<open>xs[i]\<close> and storing \<^verbatim>\<open>xs[i] = v\<close>.\<close>

definition py_get :: "'a list \<Rightarrow> int \<Rightarrow> error + 'a" where
  "py_get xs i = (case py_index (length xs) i of None \<Rightarrow> Inl IndexError | Some k \<Rightarrow> Inr (xs ! k))"

definition py_set :: "'a list \<Rightarrow> int \<Rightarrow> 'a \<Rightarrow> error + 'a list" where
  "py_set xs i v =
     (case py_index (length xs) i of None \<Rightarrow> Inl IndexError | Some k \<Rightarrow> Inr (xs[k := v]))"

text \<open>
  Python's \<^verbatim>\<open>sum\<close>: starts from 0 and adds from the left, every sum rounded to a
  double (the values of the program are numpy \<^verbatim>\<open>float64\<close>, which \<^verbatim>\<open>sum\<close> adds one
  by one, without compensation).
\<close>

definition py_sum :: "num list \<Rightarrow> num" where
  "py_sum xs = foldl float_add (Fin 0) xs"


section \<open>Bond\_Data: the fitted discount curve\<close>

text \<open>
  \<^verbatim>\<open>Bond_Data\<close> holds the spline \<^verbatim>\<open>tck_bond\<close> that scipy fits through the bond
  prices. scipy is not part of the repository: the spline is represented by what
  \<^verbatim>\<open>interpolate.splev(x, tck_bond, der=d)\<close> returns, \<open>tck_bond b d x\<close>.
\<close>

record Bond_Data =
  tck_bond :: "nat \<Rightarrow> real \<Rightarrow> real"

definition get_value_on_cubic_spline_for_bond_prices :: "Bond_Data \<Rightarrow> real \<Rightarrow> num" where
  "get_value_on_cubic_spline_for_bond_prices b x = Fin (tck_bond b 0 x)"

definition get_value_for_forward_rate :: "Bond_Data \<Rightarrow> real \<Rightarrow> num" where
  "get_value_for_forward_rate b x =
     (let bond_prices_approx = Fin (tck_bond b 0 x);
          first_derivative_bond_prices_approx = Fin (tck_bond b 1 x)
      in num_div (num_neg first_derivative_bond_prices_approx) bond_prices_approx)"

definition get_value_for_T_derivative_of_forward_rate :: "Bond_Data \<Rightarrow> real \<Rightarrow> num" where
  "get_value_for_T_derivative_of_forward_rate b x =
     (let bond_prices_approx = Fin (tck_bond b 0 x);
          first_derivative_bond_prices_approx = Fin (tck_bond b 1 x);
          second_derivative_bond_prices_approx = Fin (tck_bond b 2 x)
      in num_add
           (num_mul (num_div (Fin (- 1)) bond_prices_approx) second_derivative_bond_prices_approx)
           (num_mul
              (num_mul (num_div (Fin 1) (num_pow bond_prices_approx 2))
                 first_derivative_bond_prices_approx)
              first_derivative_bond_prices_approx))"


section \<open>Single\_time\_Monte\_Carlo: the engine\<close>

text \<open>
  The constructor's arguments. The parameters are finite Python numbers,
  \<open>iteration_times\<close> is a Python \<^verbatim>\<open>int\<close>, \<open>random_seed\<close> is \<^verbatim>\<open>None\<close> or an integer
  seed.
\<close>

record Single_time_Monte_Carlo_args =
  bond_data :: Bond_Data
  domestic_risk_free_rate_vol :: real
  mean_reversion_speed :: real
  maturity_T :: real
  Delta :: real
  strike_price_nikkei :: real
  strike_price_libor :: real
  iteration_times :: int
  current_federal_funds_rate :: real
  current_nikkei_price :: real
  correlation_foreign_asset_and_domestic_risk_free_rate :: real
  correlation_foreign_asset_and_exchange_rate :: real
  foreign_risk_free_rate :: real
  nikkei_dividends :: real
  foreign_asset_vol :: real
  exchange_rate_vol :: real
  random_seed :: "nat option"

text \<open>The object: the arguments as stored, and the attributes computed from them.\<close>

record Single_time_Monte_Carlo = Single_time_Monte_Carlo_args +
  timestep :: real
  timeline :: "real list"
  domestic_risk_free_rate_list :: "num list"
  nikkei_price_list :: "num list"

text \<open>
  \<^verbatim>\<open>__init__\<close>: \<^verbatim>\<open>maturity_T / iteration_times\<close> divides Python numbers, and the
  time step stored is the quotient as a double; \<^verbatim>\<open>range(k)\<close> and \<^verbatim>\<open>[0] * k\<close> are
  empty for \<open>k \<le> 0\<close>.
\<close>

definition init :: "Single_time_Monte_Carlo_args \<Rightarrow> error + Single_time_Monte_Carlo" where
  "init a =
     bind_err (py_float_div (maturity_T a) (real_of_int (iteration_times a))) (\<lambda>dt.
       Inr (Single_time_Monte_Carlo_args.extend a
         (Single_time_Monte_Carlo.fields
            dt
            (map (\<lambda>i. dt * real i) [0..<nat (iteration_times a + 1)])
            (replicate (nat (iteration_times a + 1)) (Fin 0))
            (replicate (nat (iteration_times a + 1)) (Fin 0)))))"


section \<open>Calibration functions\<close>

text \<open>
  \<^verbatim>\<open>B_t_T\<close>: \<^verbatim>\<open>1 / a * (1 - np.exp(-a * (T - t)))\<close>; \<^verbatim>\<open>1 / a\<close> divides Python
  numbers and raises for \<open>a = 0\<close>.
\<close>

definition B_t_T :: "Single_time_Monte_Carlo \<Rightarrow> real \<Rightarrow> real \<Rightarrow> error + real" where
  "B_t_T e t T =
     bind_err (py_div 1 (mean_reversion_speed e)) (\<lambda>q.
       Inr (q * (1 - exp (- mean_reversion_speed e * (T - t)))))"

definition G :: "Single_time_Monte_Carlo \<Rightarrow> real \<Rightarrow> error + real" where
  "G e t =
     bind_err (B_t_T e 0 t) (\<lambda>b.
       Inr (0.5 * domestic_risk_free_rate_vol e ^ 2 * b ^ 2))"

definition first_derivative_of_G :: "Single_time_Monte_Carlo \<Rightarrow> real \<Rightarrow> error + real" where
  "first_derivative_of_G e t =
     bind_err (B_t_T e 0 t) (\<lambda>b.
       Inr (domestic_risk_free_rate_vol e ^ 2 * b * exp (- mean_reversion_speed e * t)))"

definition Theta :: "Single_time_Monte_Carlo \<Rightarrow> real \<Rightarrow> error + num" where
  "Theta e t =
     (let slope = get_value_for_T_derivative_of_forward_rate (bond_data e) t in
      bind_err (first_derivative_of_G e t) (\<lambda>dg.
        let fwd = get_value_for_forward_rate (bond_data e) t in
        bind_err (G e t) (\<lambda>g.
          Inr (num_add (num_add slope (Fin dg))
                 (num_mul (Fin (mean_reversion_speed e)) (num_add fwd (Fin g)))))))"

definition p_t_T :: "Single_time_Monte_Carlo \<Rightarrow> real \<Rightarrow> real \<Rightarrow> num \<Rightarrow> error + num" where
  "p_t_T e t T r_t =
     (let ratio = num_div (get_value_on_cubic_spline_for_bond_prices (bond_data e) T)
                    (get_value_on_cubic_spline_for_bond_prices (bond_data e) t) in
      bind_err (B_t_T e t T) (\<lambda>b1.
        let fwd = get_value_for_forward_rate (bond_data e) t in
        bind_err (py_div 1 (4 * mean_reversion_speed e)) (\<lambda>q.
          bind_err (B_t_T e t T) (\<lambda>b2.
            bind_err (B_t_T e t T) (\<lambda>b3.
              Inr (num_mul ratio
                     (np_exp
                        (num_sub
                           (num_sub (num_mul (Fin b1) fwd)
                              (Fin (q * domestic_risk_free_rate_vol e ^ 2 * b2 ^ 2
                                    * (1 - exp (- 2 * mean_reversion_speed e * t)))))
                           (num_mul (Fin b3) r_t)))))))))"


section \<open>Path simulation\<close>

text \<open>
  numpy's global random generator is not part of the repository. \<open>seed np s\<close> is the
  generator state that \<^verbatim>\<open>np.random.seed(s)\<close> sets for an integer \<open>s\<close>;
  \<open>normal_rows np g n i\<close> is row \<open>i\<close>, the pair \<^verbatim>\<open>(rands[i,0], rands[i,1])\<close>, of the
  matrix that \<^verbatim>\<open>np.random.normal(0, 1, [n, 2])\<close> draws from state \<open>g\<close>, and
  \<open>normal_next np g n\<close> the state it leaves.
\<close>

record 'g np_random =
  seed :: "nat \<Rightarrow> 'g"
  normal_rows :: "'g \<Rightarrow> nat \<Rightarrow> nat \<Rightarrow> real \<times> real"
  normal_next :: "'g \<Rightarrow> nat \<Rightarrow> 'g"

text \<open>
  The right-hand sides of the two assignments in the loop body of
  \<^verbatim>\<open>start_monte_carlo\<close>: the new short rate from the drift \<open>theta = Theta(i * timestep)\<close>,
  the current rate and the two draws of the step, and the new price from the current
  price and the second draw.
\<close>

definition next_rate :: "Single_time_Monte_Carlo \<Rightarrow> real \<Rightarrow> real \<Rightarrow> num \<Rightarrow> num \<Rightarrow> num" where
  "next_rate e epsilon1 epsilon2 theta r_i =
     num_add
       (num_add r_i
          (num_mul (num_sub theta (num_mul (Fin (mean_reversion_speed e)) r_i))
             (Fin (timestep e))))
       (num_mul
          (num_mul (Fin (domestic_risk_free_rate_vol e)) (np_sqrt (timestep e)))
          (num_add
             (Fin (correlation_foreign_asset_and_domestic_risk_free_rate e * epsilon2))
             (num_mul
                (np_sqrt (1 - correlation_foreign_asset_and_domestic_risk_free_rate e ^ 2))
                (Fin epsilon1))))"

definition next_price :: "Single_time_Monte_Carlo \<Rightarrow> real \<Rightarrow> num \<Rightarrow> num" where
  "next_price e epsilon2 s_i =
     num_add
       (num_add s_i
          (num_mul
             (num_mul s_i
                (Fin (foreign_risk_free_rate e - nikkei_dividends e
                      - correlation_foreign_asset_and_exchange_rate e
                        * foreign_asset_vol e * exchange_rate_vol e)))
             (Fin (timestep e))))
       (num_mul
          (num_mul (num_mul s_i (Fin (foreign_asset_vol e))) (np_sqrt (timestep e)))
          (Fin epsilon2))"

text \<open>
  One pass of the loop body, on the two lists: each right-hand side is evaluated (the
  list entry read, \<^verbatim>\<open>Theta\<close> called) before its store.
\<close>

definition mc_step ::
  "Single_time_Monte_Carlo \<Rightarrow> (nat \<Rightarrow> real \<times> real) \<Rightarrow> nat \<Rightarrow> num list \<times> num list
     \<Rightarrow> error + num list \<times> num list" where
  "mc_step e rands i st =
     (let rs = fst st; ss = snd st;
          epsilon1 = fst (rands i); epsilon2 = snd (rands i) in
      bind_err (py_get rs (int i)) (\<lambda>r_i.
        bind_err (Theta e (real i * timestep e)) (\<lambda>theta.
          bind_err (py_set rs (int i + 1) (next_rate e epsilon1 epsilon2 theta r_i)) (\<lambda>rs'.
            bind_err (py_get ss (int i)) (\<lambda>s_i.
              bind_err (py_set ss (int i + 1) (next_price e epsilon2 s_i)) (\<lambda>ss'.
                Inr (rs', ss')))))))"

text \<open>\<^verbatim>\<open>for i in range(...)\<close>: the body for each index in turn, stopping at an exception.\<close>

fun mc_loop ::
  "Single_time_Monte_Carlo \<Rightarrow> (nat \<Rightarrow> real \<times> real) \<Rightarrow> nat list \<Rightarrow> num list \<times> num list
     \<Rightarrow> error + num list \<times> num list" where
  "mc_loop e rands [] st = Inr st"
| "mc_loop e rands (i # is) st = bind_err (mc_step e rands i st) (mc_loop e rands is)"

text \<open>
  \<^verbatim>\<open>start_monte_carlo\<close>. \<open>entropy\<close> is the generator state that \<^verbatim>\<open>np.random.seed(None)\<close>
  takes from the operating system. The result is the generator state left behind and the
  object with its two lists updated; when an exception is raised the model returns the
  exception only. \<^verbatim>\<open>np.random.normal\<close> raises ValueError for a negative dimension.
\<close>

definition start_monte_carlo ::
  "'g np_random \<Rightarrow> 'g \<Rightarrow> Single_time_Monte_Carlo \<Rightarrow> error + 'g \<times> Single_time_Monte_Carlo" where
  "start_monte_carlo np entropy e =
     bind_err (py_set (domestic_risk_free_rate_list e) 0 (Fin (current_federal_funds_rate e)))
       (\<lambda>rs.
     bind_err (py_set (nikkei_price_list e) 0 (Fin (current_nikkei_price e))) (\<lambda>ss.
       let g = (case random_seed e of None \<Rightarrow> entropy | Some s \<Rightarrow> seed np s) in
       if iteration_times e < 0 then Inl ValueError
       else
         let n = nat (iteration_times e); rands = normal_rows np g n in
         bind_err (mc_loop e rands [0..<n] (rs, ss)) (\<lambda>st.
           Inr (normal_next np g n,
                e\<lparr>domestic_risk_free_rate_list := fst st, nikkei_price_list := snd st\<rparr>))))"


section \<open>Reading the path, payoff and discounting\<close>

text \<open>
  \<^verbatim>\<open>index_in_list = int(time / self.timestep)\<close>: the quotient of two doubles is a
  double, which \<^verbatim>\<open>int\<close> truncates.
\<close>

definition get_domestic_risk_free_rate_at_a_specified_time ::
  "Single_time_Monte_Carlo \<Rightarrow> real \<Rightarrow> error + num" where
  "get_domestic_risk_free_rate_at_a_specified_time e time =
     bind_err (py_float_div time (timestep e)) (\<lambda>q.
       bind_err (py_int q) (\<lambda>index_in_list.
         py_get (domestic_risk_free_rate_list e) index_in_list))"

definition get_nikkei_price_at_a_specified_time ::
  "Single_time_Monte_Carlo \<Rightarrow> real \<Rightarrow> error + num" where
  "get_nikkei_price_at_a_specified_time e time =
     bind_err (py_float_div time (timestep e)) (\<lambda>q.
       bind_err (py_int q) (\<lambda>index_in_list.
         py_get (nikkei_price_list e) index_in_list))"

definition libor_rate_ratio :: "Single_time_Monte_Carlo \<Rightarrow> real \<Rightarrow> real \<Rightarrow> error + num" where
  "libor_rate_ratio e t T =
     (let quotient =
            num_div (get_value_on_cubic_spline_for_bond_prices (bond_data e) T)
              (num_sub (get_value_on_cubic_spline_for_bond_prices (bond_data e) t)
                 (get_value_on_cubic_spline_for_bond_prices (bond_data e) T)) in
      bind_err (get_domestic_risk_free_rate_at_a_specified_time e t) (\<lambda>r_t.
        bind_err (p_t_T e t T r_t) (\<lambda>p.
          Inr (num_mul quotient (num_sub (num_div (Fin 1) p) (Fin 1))))))"

text \<open>
  The payoff. The time \<^verbatim>\<open>self.maturity_T - self.Delta\<close> at which the rate ratio reads
  the short rate is the difference as a double.
\<close>

definition price_Exotic_Option_at_maturity :: "Single_time_Monte_Carlo \<Rightarrow> error + num" where
  "price_Exotic_Option_at_maturity e =
     bind_err (get_nikkei_price_at_a_specified_time e (maturity_T e)) (\<lambda>s_T.
       let leg = num_sub (num_div s_T (Fin (current_nikkei_price e)))
                   (Fin (strike_price_nikkei e)) in
       bind_err (libor_rate_ratio e (fl (maturity_T e - Delta e)) (maturity_T e)) (\<lambda>l.
         Inr (py_max0 (num_mul leg (num_sub (Fin (strike_price_libor e)) l)))))"

text \<open>The loop of \<^verbatim>\<open>discount_factor\<close>, with the running sum as accumulator.\<close>

fun df_loop :: "Single_time_Monte_Carlo \<Rightarrow> nat list \<Rightarrow> num \<Rightarrow> error + num" where
  "df_loop e [] sum_of_short_rates = Inr sum_of_short_rates"
| "df_loop e (i # is) sum_of_short_rates =
     bind_err (py_get (domestic_risk_free_rate_list e) (int i)) (\<lambda>r_i.
       df_loop e is (num_add sum_of_short_rates (num_mul r_i (Fin (timestep e)))))"

text \<open>
  \<^verbatim>\<open>end_index = int(T / self.timestep)\<close>, again on the double quotient;
  \<^verbatim>\<open>range(end_index)\<close> is empty for a negative \<open>end_index\<close>.
\<close>

definition discount_factor :: "Single_time_Monte_Carlo \<Rightarrow> real \<Rightarrow> error + num" where
  "discount_factor e T =
     bind_err (py_float_div T (timestep e)) (\<lambda>q.
       bind_err (py_int q) (\<lambda>end_index.
         bind_err (df_loop e [0..<nat end_index] (Fin 0)) (\<lambda>sum_of_short_rates.
           Inr (np_exp (num_neg sum_of_short_rates)))))"

definition current_price_Exotic_Option :: "Single_time_Monte_Carlo \<Rightarrow> error + num" where
  "current_price_Exotic_Option e =
     bind_err (discount_factor e (maturity_T e)) (\<lambda>d.
       bind_err (price_Exotic_Option_at_maturity e) (\<lambda>v. Inr (num_mul d v)))"


section \<open>Option\_Pricing: the aggregation\<close>

text \<open>
  The simulation loop of the script: each run simulates on the same object, stores the
  short-rate list as a column and appends the payoff. \<open>entropy i\<close> is the operating
  system's entropy at run \<open>i\<close>.
\<close>

fun simulation_loop ::
  "'g np_random \<Rightarrow> (nat \<Rightarrow> 'g) \<Rightarrow> nat list
     \<Rightarrow> Single_time_Monte_Carlo \<times> num list list \<times> num list
     \<Rightarrow> error + Single_time_Monte_Carlo \<times> num list list \<times> num list" where
  "simulation_loop np entropy [] st = Inr st"
| "simulation_loop np entropy (i # is) st =
     (let single_time_monte_carlo = fst st;
          df_domestic_short_rate_processes = fst (snd st);
          list_of_prices_Exotic_option = snd (snd st) in
      bind_err (start_monte_carlo np (entropy i) single_time_monte_carlo) (\<lambda>r.
        bind_err (price_Exotic_Option_at_maturity (snd r)) (\<lambda>v.
          simulation_loop np entropy is
            (snd r,
             df_domestic_short_rate_processes @ [domestic_risk_free_rate_list (snd r)],
             list_of_prices_Exotic_option @ [v]))))"

text \<open>
  \<^verbatim>\<open>[sum(listt[:i + 1]) / (i + 1) for i in range(len(listt))]\<close>: each entry is the
  double quotient of the double sum of the first \<open>i + 1\<close> values.
\<close>

definition cumulative_average_of_list :: "num list \<Rightarrow> num list" where
  "cumulative_average_of_list listt =
     map (\<lambda>i. float_div (py_sum (take (i + 1) listt)) (Fin (real (i + 1)))) [0..<length listt]"


section \<open>A small concrete instance\<close>

text \<open>
  One step over one year (\<open>timestep = 1\<close>) on the curve \<open>price(x) = 2 - x\<close>, with a
  generator whose row \<open>i\<close> from state \<open>g\<close> is \<open>(g + i, 2)\<close>; the model is evaluated
  on it below.
\<close>

definition example_bond :: Bond_Data where
  "example_bond = \<lparr>tck_bond = (\<lambda>d x. if d = 0 then 2 - x else if d = 1 then - 1 else 0)\<rparr>"

definition example_np :: "nat np_random" where
  "example_np =
     \<lparr>seed = (\<lambda>s. s), normal_rows = (\<lambda>g n i. (real (g + i), 2)),
      normal_next = (\<lambda>g n. g + 2 * n)\<rparr>"

definition example_args :: Single_time_Monte_Carlo_args where
  "example_args =
     \<lparr>bond_data = example_bond, domestic_risk_free_rate_vol = 1, mean_reversion_speed = 1,
      maturity_T = 1, Delta = 1, strike_price_nikkei = 1, strike_price_libor = 2,
      iteration_times = 1, current_federal_funds_rate = 1 / 2, current_nikkei_price = 1,
      correlation_foreign_asset_and_domestic_risk_free_rate = 0,
      correlation_foreign_asset_and_exchange_rate = 0, foreign_risk_free_rate = 0,
      nikkei_dividends = 0, foreign_asset_vol = 1, exchange_rate_vol = 1,
      random_seed = Some 1\<rparr>"

text \<open>The object as constructed, and as one simulation leaves it.\<close>

definition example_engine :: Single_time_Monte_Carlo where
  "example_engine =
     Single_time_Monte_Carlo_args.extend example_args
       (Single_time_Monte_Carlo.fields 1 [0, 1] [Fin 0, Fin 0] [Fin 0, Fin 0])"

definition example_simulated :: Single_time_Monte_Carlo where
  "example_simulated =
     example_engine\<lparr>domestic_risk_free_rate_list := [Fin (1 / 2), Fin (7 / 4)],
                    nikkei_price_list := [Fin 1, Fin 3]\<rparr>"

text \<open>
  A flat curve, \<open>price(x) = 1\<close>, and a nearly flat one,
  \<open>price(x) = 1 - x / 1000000\<close>, with the simulated object on each of them (the second
  with a short rate of \<open>1 / 1000000\<close> at time 0).
\<close>

definition flat_bond :: Bond_Data where
  "flat_bond = \<lparr>tck_bond = (\<lambda>d x. if d = 0 then 1 else 0)\<rparr>"

definition nearly_flat_bond :: Bond_Data where
  "nearly_flat_bond =
     \<lparr>tck_bond = (\<lambda>d x. if d = 0 then 1 - x / 1000000 else if d = 1 then - (1 / 1000000) else 0)\<rparr>"

definition flat_engine :: Single_time_Monte_Carlo where
  "flat_engine = example_simulated\<lparr>bond_data := flat_bond\<rparr>"

definition nearly_flat_engine :: Single_time_Monte_Carlo where
  "nearly_flat_engine =
     example_simulated\<lparr>bond_data := nearly_flat_bond,
                       domestic_risk_free_rate_list := [Fin (1 / 1000000), Fin (7 / 4)]\<rparr>"

text \<open>Arguments that a validating constructor would have to reject.\<close>

definition invalid_args :: Single_time_Monte_Carlo_args where
  "invalid_args =
     example_args\<lparr>mean_reversion_speed := 0, domestic_risk_free_rate_vol := - 1,
                  foreign_asset_vol := - 1, exchange_rate_vol := 0,
                  correlation_foreign_asset_and_domestic_risk_free_rate := 2,
                  correlation_foreign_asset_and_exchange_rate := - 3,
                  iteration_times := - 2\<rparr>"

text \<open>
  One year in 93 steps: the constructor's arguments, the object it makes of them (the
  time step is the double nearest to \<open>1 / 93\<close>), and that object with a short rate of 1
  throughout.
\<close>

definition args_93 :: Single_time_Monte_Carlo_args where
  "args_93 = example_args\<lparr>iteration_times := 93\<rparr>"

definition engine_93 :: Single_time_Monte_Carlo where
  "engine_93 =
     Single_time_Monte_Carlo_args.extend args_93
       (Single_time_Monte_Carlo.fields (3099251356470019 / 2 ^ 58)
          (map (\<lambda>i. 3099251356470019 / 2 ^ 58 * real i) [0..<94])
          (replicate 94 (Fin 0)) (replicate 94 (Fin 0)))"

definition engine_93_unit_rates :: Single_time_Monte_Carlo where
  "engine_93_unit_rates = engine_93\<lparr>domestic_risk_free_rate_list := replicate 94 (Fin 1)\<rparr>"

text \<open>
  A maturity in the subnormal range, five times the smallest positive double
  (\<^verbatim>\<open>2.5e-323\<close>), in four steps: the arguments and the object constructed from them.
\<close>

definition tiny_args :: Single_time_Monte_Carlo_args where
  "tiny_args = example_args\<lparr>maturity_T := 5 / 2 ^ 1074, iteration_times := 4\<rparr>"

definition tiny_engine :: Single_time_Monte_Carlo where
  "tiny_engine =
     Single_time_Monte_Carlo_args.extend tiny_args
       (Single_time_Monte_Carlo.fields (1 / 2 ^ 1074)
          (map (\<lambda>i. 1 / 2 ^ 1074 * real i) [0..<5])
          (replicate 5 (Fin 0)) (replicate 5 (Fin 0)))"

text \<open>
  The doubles that the literals \<^verbatim>\<open>0.1\<close>, \<^verbatim>\<open>0.2\<close>, \<^verbatim>\<open>0.3\<close>, \<^verbatim>\<open>1.4\<close> and \<^verbatim>\<open>1.7\<close>
  denote.
\<close>

definition double_0_1 :: real where
  "double_0_1 = 3602879701896397 / 2 ^ 55"

definition double_0_2 :: real where
  "double_0_2 = 3602879701896397 / 2 ^ 54"

definition double_0_3 :: real where
  "double_0_3 = 5404319552844595 / 2 ^ 54"

definition double_1_4 :: real where
  "double_1_4 = 3152519739159347 / 2 ^ 51"

definition double_1_7 :: real where
  "double_1_7 = 7656119366529843 / 2 ^ 52"

text \<open>The first instance with a rate strike of \<^verbatim>\<open>1.7\<close>, as constructed and as simulated.\<close>

definition drift_engine :: Single_time_Monte_Carlo where
  "drift_engine = example_engine\<lparr>strike_price_libor := double_1_7\<rparr>"

definition drift_simulated :: Single_time_Monte_Carlo where
  "drift_simulated = example_simulated\<lparr>strike_price_libor := double_1_7\<rparr>"


section \<open>Basic facts\<close>

lemma bind_err_Inl [simp]: "bind_err (Inl x) f = Inl x"
  by (simp add: bind_err_def)

lemma bind_err_Inr [simp]: "bind_err (Inr v) f = f v"
  by (simp add: bind_err_def)


section \<open>Rounding to a double\<close>

subsection \<open>Rounding to an integer\<close>

lemma round_half_even_of_int: "round_half_even (of_int m) = m"
  by (simp add: round_half_even_def)

lemma round_half_even_le: "y \<le> of_int k \<Longrightarrow> round_half_even y \<le> k"
proof -
  assume le: "y \<le> of_int k"
  show ?thesis
  proof (cases "y = of_int k")
    case True
    then show ?thesis by (simp add: round_half_even_of_int)
  next
    case False
    with le have "y < of_int k" by simp
    then have "\<lfloor>y\<rfloor> < k" by (simp add: floor_less_iff)
    then show ?thesis by (simp add: round_half_even_def)
  qed
qed

lemma round_half_even_ge: "of_int k \<le> y \<Longrightarrow> k \<le> round_half_even y"
proof -
  assume "of_int k \<le> y"
  then have "k \<le> \<lfloor>y\<rfloor>" by (simp add: le_floor_iff)
  then show ?thesis by (simp add: round_half_even_def)
qed

lemma round_half_even_lower: "y - 1 / 2 \<le> of_int (round_half_even y)"
proof -
  have "y < of_int \<lfloor>y\<rfloor> + 1" by linarith
  then show ?thesis
    by (simp add: round_half_even_def) linarith
qed

lemma round_half_even_eqI:
  assumes "\<bar>y - of_int m\<bar> < 1 / 2 \<or> (\<bar>y - of_int m\<bar> = 1 / 2 \<and> even m)"
  shows "round_half_even y = m"
proof -
  have fl: "of_int \<lfloor>y\<rfloor> \<le> y" "y < of_int \<lfloor>y\<rfloor> + 1" by linarith+
  from assms show ?thesis
  proof
    assume near: "\<bar>y - of_int m\<bar> < 1 / 2"
    show ?thesis
    proof (cases "of_int m \<le> y")
      case True
      with near have "\<lfloor>y\<rfloor> = m" by (intro floor_unique) linarith+
      with near True show ?thesis by (simp add: round_half_even_def)
    next
      case False
      with near have "\<lfloor>y\<rfloor> = m - 1" by (intro floor_unique) (simp, linarith+)
      with near False show ?thesis by (simp add: round_half_even_def)
    qed
  next
    assume tie: "\<bar>y - of_int m\<bar> = 1 / 2 \<and> even m"
    show ?thesis
    proof (cases "of_int m \<le> y")
      case True
      with tie have y: "y = of_int m + 1 / 2" by linarith
      then have "\<lfloor>y\<rfloor> = m" by (intro floor_unique) simp_all
      with tie y show ?thesis by (simp add: round_half_even_def)
    next
      case False
      with tie have y: "y = of_int (m - 1) + 1 / 2" by simp
      then have "\<lfloor>y\<rfloor> = m - 1" by (intro floor_unique) simp_all
      with tie y show ?thesis by (simp add: round_half_even_def)
    qed
  qed
qed


subsection \<open>The binade of a number\<close>

lemma two_powi_powr: "(2 :: real) powi k = 2 powr real_of_int k"
  by (simp add: powr_real_of_int')

lemma two_powi_floor_log_le: "x \<noteq> 0 \<Longrightarrow> 2 powi \<lfloor>log 2 \<bar>x\<bar>\<rfloor> \<le> \<bar>x\<bar>"
proof -
  assume "x \<noteq> 0"
  then have pos: "0 < \<bar>x\<bar>" by simp
  have "real_of_int \<lfloor>log 2 \<bar>x\<bar>\<rfloor> \<le> log 2 \<bar>x\<bar>" by simp
  then have "2 powr real_of_int \<lfloor>log 2 \<bar>x\<bar>\<rfloor> \<le> 2 powr log 2 \<bar>x\<bar>"
    by (simp only: powr_le_cancel_iff)
  with pos show ?thesis by (simp add: two_powi_powr)
qed

lemma floor_log_less:
  assumes "x \<noteq> 0" and "\<bar>x\<bar> < 2 powi k"
  shows "\<lfloor>log 2 \<bar>x\<bar>\<rfloor> < k"
proof -
  from assms have "0 < \<bar>x\<bar>" and "\<bar>x\<bar> < 2 powr real_of_int k"
    by (simp_all add: two_powi_powr)
  then have "log 2 \<bar>x\<bar> < real_of_int k"
    by (simp add: log_less_iff)
  then show ?thesis by (simp add: floor_less_iff)
qed

lemma floor_log_ge:
  assumes "2 powi k \<le> \<bar>x\<bar>"
  shows "k \<le> \<lfloor>log 2 \<bar>x\<bar>\<rfloor>"
proof -
  have "(0 :: real) < 2 powi k" by simp
  with assms have pos: "0 < \<bar>x\<bar>" by linarith
  from assms have "2 powr real_of_int k \<le> \<bar>x\<bar>" by (simp add: two_powi_powr)
  with pos have "real_of_int k \<le> log 2 \<bar>x\<bar>" by (simp add: le_log_iff)
  then show ?thesis by (simp add: le_floor_iff)
qed

lemma binade_nonzero: "2 powi k \<le> \<bar>x :: real\<bar> \<Longrightarrow> x \<noteq> 0"
proof -
  assume le: "2 powi k \<le> \<bar>x\<bar>"
  have "(0 :: real) < 2 powi k" by simp
  with le have "0 < \<bar>x\<bar>" by linarith
  then show ?thesis by simp
qed

lemma ulp_exponent_le:
  assumes "x \<noteq> 0" and "\<bar>x\<bar> < 2 powi (c + 53)" and "- 1074 \<le> c"
  shows "ulp_exponent x \<le> c"
  using floor_log_less [OF assms(1,2)] assms(3) by (simp add: ulp_exponent_def)

lemma ulp_exponent_binade:
  assumes "2 powi k \<le> \<bar>x\<bar>" and "\<bar>x\<bar> < 2 powi (k + 1)"
  shows "ulp_exponent x = max (k - 52) (- 1074)"
proof -
  have "x \<noteq> 0" using assms(1) by (rule binade_nonzero)
  from floor_log_less [OF this assms(2)] floor_log_ge [OF assms(1)]
  have "\<lfloor>log 2 \<bar>x\<bar>\<rfloor> = k" by simp
  then show ?thesis by (simp add: ulp_exponent_def)
qed


subsection \<open>The double nearest to a number\<close>

text \<open>
  Evaluating \<open>fl\<close> at a given number, from its binade \<open>k\<close>, the unit \<open>u\<close> of the last
  place there and the nearest multiple \<open>m * u\<close>.
\<close>

lemma fl_eqI:
  assumes "2 powi k \<le> \<bar>x\<bar>" and "\<bar>x\<bar> < 2 powi (k + 1)"
    and "u = 2 powi max (k - 52) (- 1074)"
    and "\<bar>x / u - of_int m\<bar> < 1 / 2 \<or> (\<bar>x / u - of_int m\<bar> = 1 / 2 \<and> even m)"
  shows "fl x = of_int m * u"
proof -
  have "x \<noteq> 0" using assms(1) by (rule binade_nonzero)
  then show ?thesis
    using round_half_even_eqI [OF assms(4)]
    by (simp add: fl_def ulp_exponent_binade [OF assms(1,2)] assms(3))
qed

lemma fl_0 [simp]: "fl 0 = 0"
  by (simp add: fl_def)

text \<open>A number with a mantissa of at most 53 bits and an exponent in range is a double.\<close>

lemma fl_exact:
  assumes "\<bar>real_of_int m * 2 powi c\<bar> < 2 powi (c + 53)" and "- 1074 \<le> c"
  shows "fl (real_of_int m * 2 powi c) = real_of_int m * 2 powi c"
proof (cases "m = 0")
  case True
  then show ?thesis by simp
next
  case False
  let ?x = "real_of_int m * 2 powi c"
  have nz: "?x \<noteq> 0" using False by simp
  define e where "e = ulp_exponent ?x"
  have ec: "e \<le> c" unfolding e_def using nz assms by (rule ulp_exponent_le)
  have "2 powi c = (2 :: real) powi (c - e) * 2 powi e"
    by (simp flip: power_int_add)
  also have "(2 :: real) powi (c - e) = 2 ^ nat (c - e)"
    using ec by (simp add: power_int_def)
  finally have "?x / 2 powi e = of_int (m * 2 ^ nat (c - e))"
    by simp
  then have "round_half_even (?x / 2 powi e) = m * 2 ^ nat (c - e)"
    by (simp only: round_half_even_of_int)
  then have "fl ?x = of_int (m * 2 ^ nat (c - e)) * 2 powi e"
    using nz by (simp add: fl_def e_def)
  also have "\<dots> = ?x / 2 powi e * 2 powi e"
    using \<open>?x / 2 powi e = of_int (m * 2 ^ nat (c - e))\<close> by simp
  finally show ?thesis by simp
qed

lemma fl_scaled_nat:
  assumes n: "n \<le> 2 ^ 53" and c: "- 1074 \<le> c"
  shows "fl (real n * 2 powi c) = real n * 2 powi c"
proof (cases "n = 2 ^ 53")
  case True
  have "fl (real_of_int (2 ^ 52) * 2 powi (c + 1)) = real_of_int (2 ^ 52) * 2 powi (c + 1)"
    using c by (intro fl_exact) (simp_all add: power_int_add)
  with True show ?thesis by (simp add: power_int_add)
next
  case False
  with n have "n < 2 ^ 53" by simp
  then have "real n < 2 ^ 53" by (metis of_nat_less_iff of_nat_numeral of_nat_power)
  then have "real n * 2 powi c < 2 ^ 53 * 2 powi c"
    by (intro mult_strict_right_mono) simp_all
  then have "\<bar>real_of_int (int n) * 2 powi c\<bar> < 2 powi (c + 53)"
    by (simp add: power_int_add abs_mult mult.commute)
  then have "fl (real_of_int (int n) * 2 powi c) = real_of_int (int n) * 2 powi c"
    using c by (rule fl_exact)
  then show ?thesis by simp
qed

lemma fl_of_nat: "n \<le> 2 ^ 53 \<Longrightarrow> fl (real n) = real n"
  using fl_scaled_nat [of n 0] by simp

lemma fl_small: "fl 1 = 1" "fl 2 = 2" "fl 5 = 5" "fl (- (1 / 2)) = - (1 / 2)"
proof -
  show "fl 1 = 1" using fl_of_nat [of 1] by simp
  show "fl 2 = 2" using fl_of_nat [of 2] by simp
  show "fl 5 = 5" using fl_of_nat [of 5] by simp
  show "fl (- (1 / 2)) = - (1 / 2)"
    using fl_exact [of "- 1" "- 1"] by (simp add: power_int_minus_divide)
qed

text \<open>Rounding does not pass a double above, nor zero below.\<close>

lemma fl_le:
  assumes "0 < x" and "x \<le> real_of_int m * 2 powi c"
    and "real_of_int m * 2 powi c < 2 powi (c + 53)" and "- 1074 \<le> c"
  shows "fl x \<le> real_of_int m * 2 powi c"
proof -
  define e where "e = ulp_exponent x"
  have "\<bar>x\<bar> < 2 powi (c + 53)" using assms(1-3) by simp
  with assms have ec: "e \<le> c" unfolding e_def by (intro ulp_exponent_le) simp_all
  have "2 powi c = (2 :: real) powi (c - e) * 2 powi e"
    by (simp flip: power_int_add)
  also have "(2 :: real) powi (c - e) = 2 ^ nat (c - e)"
    using ec by (simp add: power_int_def)
  finally have r: "real_of_int m * 2 powi c = real_of_int (m * 2 ^ nat (c - e)) * 2 powi e"
    by simp
  have "x / 2 powi e \<le> of_int (m * 2 ^ nat (c - e))"
    using assms(2) by (simp add: r pos_divide_le_eq)
  then have "round_half_even (x / 2 powi e) \<le> m * 2 ^ nat (c - e)"
    by (rule round_half_even_le)
  then have "real_of_int (round_half_even (x / 2 powi e))
      \<le> real_of_int (m * 2 ^ nat (c - e))"
    by (simp only: of_int_le_iff)
  then have "real_of_int (round_half_even (x / 2 powi e)) * 2 powi e
      \<le> real_of_int (m * 2 ^ nat (c - e)) * 2 powi e"
    by (rule mult_right_mono) simp
  then show ?thesis
    using assms(1) by (simp add: fl_def e_def r)
qed

lemma fl_nonneg: "0 \<le> x \<Longrightarrow> 0 \<le> fl x"
proof -
  assume "0 \<le> x"
  then have "of_int 0 \<le> x / 2 powi ulp_exponent x" by simp
  then have "0 \<le> round_half_even (x / 2 powi ulp_exponent x)"
    by (rule round_half_even_ge)
  then show ?thesis by (simp add: fl_def)
qed

text \<open>In the normal range the relative error is at most \<open>2\<^sup>-\<^sup>5\<^sup>3\<close>.\<close>

lemma fl_lower:
  assumes "2 powi (- 1022) \<le> x"
  shows "x * (1 - 2 powi (- 53)) \<le> fl x"
proof -
  have "(0 :: real) < 2 powi (- 1022)" by simp
  with assms have pos: "0 < x" by linarith
  then have ax: "\<bar>x\<bar> = x" by simp
  define l where "l = \<lfloor>log 2 \<bar>x\<bar>\<rfloor>"
  have "2 powi (- 1022) \<le> \<bar>x\<bar>" using assms by (simp only: ax)
  then have "- 1022 \<le> l" unfolding l_def by (rule floor_log_ge)
  then have "max (l - 52) (- 1074) = l - 52" by simp
  then have e: "ulp_exponent x = l - 52" by (simp only: ulp_exponent_def l_def)
  have "2 powi l \<le> x" using two_powi_floor_log_le [of x] pos by (simp add: l_def)
  then have "2 powi l * 2 powi (- 52) \<le> x * 2 powi (- 52)"
    by (intro mult_right_mono) simp_all
  moreover have "(2 :: real) powi l * 2 powi (- 52) = 2 powi (l - 52)"
    using power_int_add [of "2 :: real" l "- 52"] by simp
  ultimately have u: "2 powi (l - 52) \<le> x * 2 powi (- 52)"
    by (simp only:)
  have "x / 2 powi (l - 52) - 1 / 2 \<le> of_int (round_half_even (x / 2 powi (l - 52)))"
    by (rule round_half_even_lower)
  then have "(x / 2 powi (l - 52) - 1 / 2) * 2 powi (l - 52)
      \<le> of_int (round_half_even (x / 2 powi (l - 52))) * 2 powi (l - 52)"
    by (intro mult_right_mono) simp_all
  then have "x - 2 powi (l - 52) / 2 \<le> fl x"
    using pos by (simp add: fl_def e algebra_simps)
  moreover have "x * 2 powi (- 52) / 2 = x * 2 powi (- 53)"
    by (simp add: power_int_minus_divide)
  ultimately show ?thesis
    using u by (simp add: algebra_simps)
qed

text \<open>The result of an operation whose exact result is in range.\<close>

lemma float_of_real_bounded:
  assumes "0 \<le> x" and "x \<le> 2 ^ 1023"
  shows "float_of_real x = Fin (fl x)"
proof (cases "x = 0")
  case True
  then show ?thesis by (simp add: float_of_real_def)
next
  case False
  with assms(1) have pos: "0 < x" by simp
  have "fl x \<le> real_of_int (2 ^ 52) * 2 powi 971"
    using pos assms(2) by (intro fl_le) simp_all
  moreover have "0 \<le> fl x" using assms(1) by (rule fl_nonneg)
  ultimately show ?thesis by (simp add: float_of_real_def)
qed

lemma float_of_real_scaled:
  assumes n: "n \<le> 2 ^ 53" and c: "- 1074 \<le> c" "c \<le> 970"
  shows "float_of_real (real n * 2 powi c) = Fin (real n * 2 powi c)"
proof -
  have "real n \<le> 2 ^ 53" using n by (metis of_nat_le_iff of_nat_numeral of_nat_power)
  moreover have "(2 :: real) powi c \<le> 2 powi 970"
    using c(2) by (intro power_int_increasing) simp_all
  ultimately have "real n * 2 powi c \<le> 2 ^ 53 * 2 powi 970"
    by (intro mult_mono) simp_all
  then have "real n * 2 powi c \<le> 2 ^ 1023" by simp
  then have "float_of_real (real n * 2 powi c) = Fin (fl (real n * 2 powi c))"
    by (intro float_of_real_bounded) simp_all
  then show ?thesis by (simp only: fl_scaled_nat [OF n c(1)])
qed


section \<open>The cumulative average\<close>

lemma cumulative_average_length: "length (cumulative_average_of_list xs) = length xs"
  by (simp add: cumulative_average_of_list_def)

lemma cumulative_average_nth:
  "i < length xs \<Longrightarrow>
   cumulative_average_of_list xs ! i = float_div (py_sum (take (Suc i) xs)) (Fin (real (Suc i)))"
  by (simp add: cumulative_average_of_list_def)

lemma cumulative_average_last:
  "xs \<noteq> [] \<Longrightarrow>
   last (cumulative_average_of_list xs) = float_div (py_sum xs) (Fin (real (length xs)))"
proof -
  assume ne: "xs \<noteq> []"
  then have "cumulative_average_of_list xs \<noteq> []"
    using cumulative_average_length [of xs] by auto
  then have "last (cumulative_average_of_list xs)
      = cumulative_average_of_list xs ! (length xs - 1)"
    by (simp add: last_conv_nth cumulative_average_length)
  with ne show ?thesis
    by (simp add: cumulative_average_nth)
qed

subsection \<open>Sums that are exact\<close>

text \<open>
  Natural multiples of one power of two \<open>2\<^sup>c\<close> whose total is at most \<open>2\<^sup>5\<^sup>3 * 2\<^sup>c\<close> are
  added without rounding.
\<close>

lemma scaled_nat_nonneg: "\<forall>x \<in> set xs. \<exists>m :: nat. x = real m * 2 powi c \<Longrightarrow> 0 \<le> sum_list xs"
proof -
  assume grid: "\<forall>x \<in> set xs. \<exists>m :: nat. x = real m * 2 powi c"
  have "0 \<le> x" if "x \<in> set xs" for x
  proof -
    from grid that obtain m :: nat where "x = real m * 2 powi c" by blast
    then show ?thesis by simp
  qed
  then show ?thesis by (rule sum_list_nonneg)
qed

lemma foldl_float_add_exact:
  assumes c: "- 1074 \<le> c" "c \<le> 970"
  shows "\<forall>x \<in> set xs. \<exists>m :: nat. x = real m * 2 powi c \<Longrightarrow>
    real a * 2 powi c + sum_list xs \<le> 2 ^ 53 * 2 powi c \<Longrightarrow>
    foldl float_add (Fin (real a * 2 powi c)) (map Fin xs)
      = Fin (real a * 2 powi c + sum_list xs)"
proof (induction xs arbitrary: a)
  case Nil
  show ?case by simp
next
  case (Cons x xs)
  from Cons.prems(1) obtain m :: nat where x: "x = real m * 2 powi c" by auto
  from Cons.prems(1) have grid: "\<forall>x \<in> set xs. \<exists>m :: nat. x = real m * 2 powi c" by simp
  then have "0 \<le> sum_list xs" by (rule scaled_nat_nonneg)
  with Cons.prems(2) have "real (a + m) * 2 powi c \<le> 2 ^ 53 * 2 powi c"
    by (simp add: x algebra_simps)
  then have "real (a + m) \<le> 2 ^ 53"
    by (simp only: mult_le_cancel_right) simp
  then have am: "a + m \<le> 2 ^ 53"
    by (metis of_nat_le_iff of_nat_numeral of_nat_power)
  have "float_add (Fin (real a * 2 powi c)) (Fin x) = float_of_real (real (a + m) * 2 powi c)"
    by (simp add: x algebra_simps)
  also have "\<dots> = Fin (real (a + m) * 2 powi c)"
    using am c by (rule float_of_real_scaled)
  finally have step: "float_add (Fin (real a * 2 powi c)) (Fin x) = Fin (real (a + m) * 2 powi c)" .
  have "real (a + m) * 2 powi c + sum_list xs \<le> 2 ^ 53 * 2 powi c"
    using Cons.prems(2) by (simp add: x algebra_simps)
  then have "foldl float_add (Fin (real (a + m) * 2 powi c)) (map Fin xs)
      = Fin (real (a + m) * 2 powi c + sum_list xs)"
    by (rule Cons.IH [OF grid])
  moreover have "foldl float_add (Fin (real a * 2 powi c)) (map Fin (x # xs))
      = foldl float_add (float_add (Fin (real a * 2 powi c)) (Fin x)) (map Fin xs)"
    by (simp only: list.map foldl_Cons)
  ultimately have "foldl float_add (Fin (real a * 2 powi c)) (map Fin (x # xs))
      = Fin (real (a + m) * 2 powi c + sum_list xs)"
    by (simp only: step)
  then show ?case
    by (simp add: x algebra_simps)
qed

lemma py_sum_exact:
  assumes "- 1074 \<le> c" "c \<le> 970"
    and "\<forall>x \<in> set xs. \<exists>m :: nat. x = real m * 2 powi c"
    and "sum_list xs \<le> 2 ^ 53 * 2 powi c"
  shows "py_sum (map Fin xs) = Fin (sum_list xs)"
  using foldl_float_add_exact [OF assms(1,2), of xs 0] assms(3,4)
  by (simp add: py_sum_def)

lemma sum_list_take_le:
  assumes "\<forall>x \<in> set xs. (0 :: real) \<le> x"
  shows "sum_list (take k xs) \<le> sum_list xs"
proof -
  have "sum_list (take k xs) + sum_list (drop k xs) = sum_list xs"
    by (simp flip: sum_list_append)
  moreover have "0 \<le> sum_list (drop k xs)"
    using assms by (intro sum_list_nonneg) (auto dest: in_set_dropD)
  ultimately show ?thesis by linarith
qed

lemma scaled_nat_ge_0: "\<forall>x \<in> set xs. \<exists>m :: nat. x = real m * 2 powi c \<Longrightarrow> \<forall>x \<in> set xs. 0 \<le> x"
  by auto

lemma mean_exact:
  assumes c: "- 1074 \<le> c" "c \<le> 970"
    and grid: "\<forall>x \<in> set xs. \<exists>m :: nat. x = real m * 2 powi c"
    and total: "sum_list xs \<le> 2 ^ 53 * 2 powi c"
  shows "float_div (py_sum (map Fin xs)) (Fin (real (Suc k)))
    = Fin (fl (sum_list xs / real (Suc k)))"
proof -
  have s0: "0 \<le> sum_list xs" using grid by (rule scaled_nat_nonneg)
  have "(2 :: real) powi c \<le> 2 powi 970"
    using c(2) by (intro power_int_increasing) simp_all
  then have "(2 :: real) ^ 53 * 2 powi c \<le> 2 ^ 53 * 2 powi 970"
    by (intro mult_left_mono) simp_all
  with total have s1: "sum_list xs \<le> 2 ^ 1023" by simp
  have "sum_list xs / real (Suc k) \<le> sum_list xs / 1"
    using s0 by (intro divide_left_mono) simp_all
  with s1 have "sum_list xs / real (Suc k) \<le> 2 ^ 1023" by simp
  moreover have "0 \<le> sum_list xs / real (Suc k)" using s0 by simp
  ultimately have "float_of_real (sum_list xs / real (Suc k))
      = Fin (fl (sum_list xs / real (Suc k)))"
    by (intro float_of_real_bounded)
  then show ?thesis
    by (simp add: py_sum_exact [OF c grid total] del: of_nat_Suc)
qed

text \<open>The doubles that the literals \<^verbatim>\<open>0.1\<close>, \<^verbatim>\<open>0.2\<close> and \<^verbatim>\<open>0.3\<close> denote.\<close>

lemma double_literals:
  "fl (1 / 10) = double_0_1" "fl (2 / 10) = double_0_2" "fl (3 / 10) = double_0_3"
proof -
  show "fl (1 / 10) = double_0_1"
    using fl_eqI [of "- 4" "1 / 10" "1 / 2 ^ 56" 7205759403792794]
    by (simp add: double_0_1_def power_int_minus_divide)
  show "fl (2 / 10) = double_0_2"
    using fl_eqI [of "- 3" "2 / 10" "1 / 2 ^ 55" 7205759403792794]
    by (simp add: double_0_2_def power_int_minus_divide)
  show "fl (3 / 10) = double_0_3"
    using fl_eqI [of "- 2" "3 / 10" "1 / 2 ^ 54" 5404319552844595]
    by (simp add: double_0_3_def power_int_minus_divide)
qed

text \<open>\<^verbatim>\<open>sum([0.1, 0.2, 0.3]) / 3\<close>, step by step.\<close>

lemma sum_0_1_0_2_0_3:
  "float_add (Fin 0) (Fin double_0_1) = Fin double_0_1"
  "float_add (Fin double_0_1) (Fin double_0_2) = Fin (1351079888211149 / 2 ^ 52)"
  "float_add (Fin (1351079888211149 / 2 ^ 52)) (Fin double_0_3)
     = Fin (1351079888211149 / 2 ^ 51)"
  "float_div (Fin (1351079888211149 / 2 ^ 51)) (Fin (real (length [a, b, c :: num])))
     = Fin (7205759403792795 / 2 ^ 55)"
proof -
  show "float_add (Fin 0) (Fin double_0_1) = Fin double_0_1"
    using fl_eqI [of "- 4" "0 + double_0_1" "1 / 2 ^ 56" 7205759403792794]
    by (simp add: float_of_real_def double_0_1_def power_int_minus_divide)
  show "float_add (Fin double_0_1) (Fin double_0_2) = Fin (1351079888211149 / 2 ^ 52)"
    using fl_eqI [of "- 2" "double_0_1 + double_0_2" "1 / 2 ^ 54" 5404319552844596]
    by (simp add: float_of_real_def double_0_1_def double_0_2_def power_int_minus_divide)
  show "float_add (Fin (1351079888211149 / 2 ^ 52)) (Fin double_0_3)
     = Fin (1351079888211149 / 2 ^ 51)"
    using fl_eqI [of "- 1" "1351079888211149 / 2 ^ 52 + double_0_3" "1 / 2 ^ 53"
        5404319552844596]
    by (simp add: float_of_real_def double_0_3_def power_int_minus_divide)
  show "float_div (Fin (1351079888211149 / 2 ^ 51)) (Fin (real (length [a, b, c])))
     = Fin (7205759403792795 / 2 ^ 55)"
    using fl_eqI [of "- 3" "1351079888211149 / 2 ^ 51 / 3" "1 / 2 ^ 55" 7205759403792795]
    by (simp add: float_of_real_def power_int_minus_divide)
qed

text \<open>\<^verbatim>\<open>sum([0.2, 0.3, 0.1]) / 3\<close>, step by step.\<close>

lemma sum_0_2_0_3_0_1:
  "float_add (Fin 0) (Fin double_0_2) = Fin double_0_2"
  "float_add (Fin double_0_2) (Fin double_0_3) = Fin (1 / 2)"
  "float_add (Fin (1 / 2)) (Fin double_0_1) = Fin (5404319552844595 / 2 ^ 53)"
  "float_div (Fin (5404319552844595 / 2 ^ 53)) (Fin (real (length [a, b, c :: num])))
     = Fin (7205759403792793 / 2 ^ 55)"
proof -
  show "float_add (Fin 0) (Fin double_0_2) = Fin double_0_2"
    using fl_eqI [of "- 3" "0 + double_0_2" "1 / 2 ^ 55" 7205759403792794]
    by (simp add: float_of_real_def double_0_2_def power_int_minus_divide)
  show "float_add (Fin double_0_2) (Fin double_0_3) = Fin (1 / 2)"
    using fl_eqI [of "- 1" "double_0_2 + double_0_3" "1 / 2 ^ 53" 4503599627370496]
    by (simp add: float_of_real_def double_0_2_def double_0_3_def power_int_minus_divide)
  show "float_add (Fin (1 / 2)) (Fin double_0_1) = Fin (5404319552844595 / 2 ^ 53)"
    using fl_eqI [of "- 1" "1 / 2 + double_0_1" "1 / 2 ^ 53" 5404319552844595]
    by (simp add: float_of_real_def double_0_1_def power_int_minus_divide)
  show "float_div (Fin (5404319552844595 / 2 ^ 53)) (Fin (real (length [a, b, c])))
     = Fin (7205759403792793 / 2 ^ 55)"
    using fl_eqI [of "- 3" "5404319552844595 / 2 ^ 53 / 3" "1 / 2 ^ 55" 7205759403792793]
    by (simp add: float_of_real_def power_int_minus_divide)
qed

text \<open>
  Claim C5, as stated, fails on doubles: the sums are rounded after every addition, so
  the last entry depends on the order of the runs, and is not the arithmetic mean. For
  the values \<^verbatim>\<open>0.1\<close>, \<^verbatim>\<open>0.2\<close>, \<^verbatim>\<open>0.3\<close> the final estimate is
  \<^verbatim>\<open>0.20000000000000004\<close>; for the same values in the order \<^verbatim>\<open>0.2\<close>, \<^verbatim>\<open>0.3\<close>,
  \<^verbatim>\<open>0.1\<close> it is \<^verbatim>\<open>0.19999999999999998\<close>; the double nearest to their mean is
  \<^verbatim>\<open>0.2\<close>.
\<close>

theorem cumulative_average_depends_on_order:
  "mset [Fin double_0_2, Fin double_0_3, Fin double_0_1]
     = mset [Fin double_0_1, Fin double_0_2, Fin double_0_3]
   \<and> last (cumulative_average_of_list [Fin double_0_1, Fin double_0_2, Fin double_0_3])
       = Fin (7205759403792795 / 2 ^ 55)
   \<and> last (cumulative_average_of_list [Fin double_0_2, Fin double_0_3, Fin double_0_1])
       = Fin (7205759403792793 / 2 ^ 55)
   \<and> fl ((double_0_1 + double_0_2 + double_0_3) / 3) = 7205759403792794 / 2 ^ 55"
proof -
  have "last (cumulative_average_of_list [Fin double_0_1, Fin double_0_2, Fin double_0_3])
      = float_div
          (float_add (float_add (float_add (Fin 0) (Fin double_0_1)) (Fin double_0_2))
             (Fin double_0_3))
          (Fin (real (length [Fin double_0_1, Fin double_0_2, Fin double_0_3])))"
    by (simp only: cumulative_average_last py_sum_def foldl.simps list.distinct
        not_False_eq_True)
  also have "\<dots> = Fin (7205759403792795 / 2 ^ 55)"
    by (simp only: sum_0_1_0_2_0_3)
  finally have first: "last (cumulative_average_of_list
      [Fin double_0_1, Fin double_0_2, Fin double_0_3]) = Fin (7205759403792795 / 2 ^ 55)" .
  have "last (cumulative_average_of_list [Fin double_0_2, Fin double_0_3, Fin double_0_1])
      = float_div
          (float_add (float_add (float_add (Fin 0) (Fin double_0_2)) (Fin double_0_3))
             (Fin double_0_1))
          (Fin (real (length [Fin double_0_2, Fin double_0_3, Fin double_0_1])))"
    by (simp only: cumulative_average_last py_sum_def foldl.simps list.distinct
        not_False_eq_True)
  also have "\<dots> = Fin (7205759403792793 / 2 ^ 55)"
    by (simp only: sum_0_2_0_3_0_1)
  finally have second: "last (cumulative_average_of_list
      [Fin double_0_2, Fin double_0_3, Fin double_0_1]) = Fin (7205759403792793 / 2 ^ 55)" .
  have mean: "fl ((double_0_1 + double_0_2 + double_0_3) / 3) = 7205759403792794 / 2 ^ 55"
    using fl_eqI [of "- 3" "(double_0_1 + double_0_2 + double_0_3) / 3" "1 / 2 ^ 55"
        7205759403792794]
    by (simp add: double_0_1_def double_0_2_def double_0_3_def power_int_minus_divide)
  have "mset [Fin double_0_2, Fin double_0_3, Fin double_0_1]
     = mset [Fin double_0_1, Fin double_0_2, Fin double_0_3]"
    by (simp add: add.commute add.left_commute)
  with first second mean show ?thesis by (simp only: simp_thms)
qed

text \<open>
  Claim C5, amended. For values that are natural multiples of one power of two \<open>2\<^sup>c\<close>
  (with \<open>-1074 \<le> c \<le> 970\<close>) and whose total is at most \<open>2\<^sup>5\<^sup>3 * 2\<^sup>c\<close>, so that no
  addition rounds: entry \<open>i\<close> of the cumulative-average sequence is the double nearest to
  the arithmetic mean of the first \<open>i + 1\<close> values, and the last entry of the sequence of
  a non-empty list is the same for every reordering of the list.
\<close>

theorem cumulative_average_is_running_mean:
  assumes c: "- 1074 \<le> c" "c \<le> 970"
    and grid: "\<forall>x \<in> set xs. \<exists>m :: nat. x = real m * 2 powi c"
    and total: "sum_list xs \<le> 2 ^ 53 * 2 powi c"
  shows "(\<forall>i < length xs.
      cumulative_average_of_list (map Fin xs) ! i
        = Fin (fl (sum_list (take (Suc i) xs) / real (Suc i))))
   \<and> (\<forall>ys. xs \<noteq> [] \<longrightarrow> mset ys = mset xs \<longrightarrow>
         last (cumulative_average_of_list (map Fin ys))
           = last (cumulative_average_of_list (map Fin xs)))"
proof (intro conjI allI impI)
  fix i assume i: "i < length xs"
  have g: "\<forall>x \<in> set (take (Suc i) xs). \<exists>m :: nat. x = real m * 2 powi c"
    using grid by (auto dest: in_set_takeD)
  have "sum_list (take (Suc i) xs) \<le> sum_list xs"
    using grid by (intro sum_list_take_le scaled_nat_ge_0)
  with total have t: "sum_list (take (Suc i) xs) \<le> 2 ^ 53 * 2 powi c" by simp
  from i show "cumulative_average_of_list (map Fin xs) ! i
        = Fin (fl (sum_list (take (Suc i) xs) / real (Suc i)))"
    by (simp only: cumulative_average_nth length_map take_map mean_exact [OF c g t])
next
  fix ys :: "real list"
  assume ne: "xs \<noteq> []" and eq: "mset ys = mset xs"
  from eq have len: "length ys = length xs" by (rule mset_eq_length)
  with ne have ne': "ys \<noteq> []" by auto
  from eq have "set ys = set xs" by (rule mset_eq_setD)
  with grid have grid': "\<forall>x \<in> set ys. \<exists>m :: nat. x = real m * 2 powi c" by simp
  have sum: "sum_list ys = sum_list xs"
    using eq by (metis sum_mset_sum_list)
  with total have total': "sum_list ys \<le> 2 ^ 53 * 2 powi c" by simp
  from len obtain k where k: "length xs = Suc k" "length ys = Suc k"
    using ne by (cases xs) auto
  have "last (cumulative_average_of_list (map Fin ys))
      = float_div (py_sum (map Fin ys)) (Fin (real (Suc k)))"
    using ne' by (simp add: cumulative_average_last k del: of_nat_Suc)
  also have "\<dots> = Fin (fl (sum_list xs / real (Suc k)))"
    by (simp only: mean_exact [OF c grid' total'] sum)
  also have "\<dots> = float_div (py_sum (map Fin xs)) (Fin (real (Suc k)))"
    by (simp only: mean_exact [OF c grid total])
  also have "\<dots> = last (cumulative_average_of_list (map Fin xs))"
    using ne by (simp add: cumulative_average_last k del: of_nat_Suc)
  finally show "last (cumulative_average_of_list (map Fin ys))
      = last (cumulative_average_of_list (map Fin xs))" .
qed

theorem cumulative_average_is_running_mean_witness:
  "- 1074 \<le> (0 :: int) \<and> (0 :: int) \<le> 970
   \<and> sum_list [1, 3, 8 :: real] \<le> 2 ^ 53 * 2 powi 0
   \<and> cumulative_average_of_list (map Fin [1, 3, 8]) ! 1 = Fin 2
   \<and> [1, 3, 8 :: real] \<noteq> [] \<and> mset [8, 1, 3 :: real] = mset [1, 3, 8]
   \<and> last (cumulative_average_of_list (map Fin [8, 1, 3]))
       = last (cumulative_average_of_list (map Fin [1, 3, 8]))"
proof -
  have c: "- 1074 \<le> (0 :: int)" "(0 :: int) \<le> 970" by simp_all
  have grid: "\<forall>x \<in> set [1, 3, 8 :: real]. \<exists>m :: nat. x = real m * 2 powi 0"
  proof (intro ballI)
    fix x :: real
    assume "x \<in> set [1, 3, 8]"
    then have "x = real 1 * 2 powi 0 \<or> x = real 3 * 2 powi 0 \<or> x = real 8 * 2 powi 0"
      by auto
    then show "\<exists>m :: nat. x = real m * 2 powi 0"
      by blast
  qed
  have total: "sum_list [1, 3, 8 :: real] \<le> 2 ^ 53 * 2 powi 0" by simp
  have perm: "mset [8, 1, 3 :: real] = mset [1, 3, 8]"
    by (simp add: add.commute add.left_commute)
  note running = cumulative_average_is_running_mean [OF c grid total]
  from running have "cumulative_average_of_list (map Fin [1, 3, 8]) ! 1
      = Fin (fl (sum_list (take (Suc 1) [1, 3, 8]) / real (Suc 1)))"
    by simp
  also have "\<dots> = Fin 2"
    by (simp add: fl_small)
  finally have entry: "cumulative_average_of_list (map Fin [1, 3, 8]) ! 1 = Fin 2" .
  from running perm have "last (cumulative_average_of_list (map Fin [8, 1, 3]))
       = last (cumulative_average_of_list (map Fin [1, 3, 8]))"
    by blast
  with c total entry perm show ?thesis by simp
qed


section \<open>Construction\<close>

lemma init_Inr:
  "iteration_times a \<noteq> 0 \<Longrightarrow>
   init a = Inr (Single_time_Monte_Carlo_args.extend a
         (Single_time_Monte_Carlo.fields
            (fl (maturity_T a / real_of_int (iteration_times a)))
            (map (\<lambda>i. fl (maturity_T a / real_of_int (iteration_times a)) * real i)
               [0..<nat (iteration_times a + 1)])
            (replicate (nat (iteration_times a + 1)) (Fin 0))
            (replicate (nat (iteration_times a + 1)) (Fin 0))))"
  by (simp add: init_def py_float_div_def)

lemma init_zero: "iteration_times a = 0 \<Longrightarrow> init a = Inl ZeroDivisionError"
  by (simp add: init_def py_float_div_def)

text \<open>The object that the constructor returns, from the time step as a double.\<close>

lemma init_value:
  assumes "iteration_times a \<noteq> 0"
    and "fl (maturity_T a / real_of_int (iteration_times a)) = dt"
    and "nat (iteration_times a + 1) = k"
  shows "init a = Inr (Single_time_Monte_Carlo_args.extend a
         (Single_time_Monte_Carlo.fields dt (map (\<lambda>i. dt * real i) [0..<k])
            (replicate k (Fin 0)) (replicate k (Fin 0))))"
  using assms by (simp add: init_Inr)

lemma init_example_args: "init example_args = Inr example_engine"
  unfolding example_engine_def
proof -
  have "[0..<2] = [0, 1]"
    by (simp add: upt_rec numeral_2_eq_2)
  moreover have "init example_args = Inr (Single_time_Monte_Carlo_args.extend example_args
      (Single_time_Monte_Carlo.fields 1 (map (\<lambda>i. 1 * real i) [0..<2])
         (replicate 2 (Fin 0)) (replicate 2 (Fin 0))))"
    by (rule init_value) (simp_all add: example_args_def fl_small)
  ultimately show "init example_args = Inr (Single_time_Monte_Carlo_args.extend example_args
      (Single_time_Monte_Carlo.fields 1 [0, 1] [Fin 0, Fin 0] [Fin 0, Fin 0]))"
    by (simp add: numeral_2_eq_2)
qed

text \<open>
  Claim C8, as stated, fails: the constructor validates nothing. With a zero
  mean-reversion speed, negative and zero volatilities, correlations 2 and -3 and
  \<open>iteration_times = -2\<close> it returns an object (with a negative time step and empty
  lists) instead of raising.
\<close>

theorem init_accepts_invalid_parameters:
  "init invalid_args =
     Inr (Single_time_Monte_Carlo_args.extend invalid_args
            (Single_time_Monte_Carlo.fields (- 1 / 2) [] [] []))"
  by (simp add: init_Inr invalid_args_def example_args_def fl_small)

text \<open>
  Claim C8, amended. The constructor never changes (clamps) a parameter: whenever
  \<open>iteration_times\<close> is not 0 it succeeds, whatever the other values are, and the
  object holds the mean-reversion speed, the correlations, the volatilities and
  \<open>iteration_times\<close> as given; for \<open>iteration_times = 0\<close> it raises
  ZeroDivisionError, at construction.
\<close>

theorem init_stores_parameters_unchanged:
  "(iteration_times a = 0 \<longrightarrow> init a = Inl ZeroDivisionError)
   \<and> (iteration_times a \<noteq> 0 \<longrightarrow>
        (\<exists>e. init a = Inr e
           \<and> mean_reversion_speed e = mean_reversion_speed a
           \<and> correlation_foreign_asset_and_domestic_risk_free_rate e
               = correlation_foreign_asset_and_domestic_risk_free_rate a
           \<and> correlation_foreign_asset_and_exchange_rate e
               = correlation_foreign_asset_and_exchange_rate a
           \<and> domestic_risk_free_rate_vol e = domestic_risk_free_rate_vol a
           \<and> foreign_asset_vol e = foreign_asset_vol a
           \<and> exchange_rate_vol e = exchange_rate_vol a
           \<and> iteration_times e = iteration_times a))"
  by (simp add: init_zero init_Inr Single_time_Monte_Carlo_args.defs)

theorem init_stores_parameters_unchanged_witness:
  "iteration_times invalid_args \<noteq> 0
   \<and> (\<exists>e. init invalid_args = Inr e
         \<and> mean_reversion_speed e = 0
         \<and> correlation_foreign_asset_and_domestic_risk_free_rate e = 2
         \<and> correlation_foreign_asset_and_exchange_rate e = - 3
         \<and> domestic_risk_free_rate_vol e = - 1
         \<and> foreign_asset_vol e = - 1
         \<and> exchange_rate_vol e = 0
         \<and> iteration_times e = - 2)
   \<and> iteration_times (example_args\<lparr>iteration_times := 0\<rparr>) = 0
   \<and> init (example_args\<lparr>iteration_times := 0\<rparr>) = Inl ZeroDivisionError"
  using init_stores_parameters_unchanged [of invalid_args]
    init_stores_parameters_unchanged [of "example_args\<lparr>iteration_times := 0\<rparr>"]
  by (simp add: invalid_args_def example_args_def)


section \<open>Calibration\<close>

lemma B_t_T_value:
  "mean_reversion_speed e \<noteq> 0 \<Longrightarrow>
   B_t_T e t T = Inr ((1 - exp (- mean_reversion_speed e * (T - t))) / mean_reversion_speed e)"
  by (simp add: B_t_T_def py_div_def)

lemma B_t_T_zero: "mean_reversion_speed e = 0 \<Longrightarrow> B_t_T e t T = Inl ZeroDivisionError"
  by (simp add: B_t_T_def py_div_def)

text \<open>
  Claim C2. For a non-zero mean-reversion speed \<open>a\<close> and a time \<open>t\<close> at which the
  curve's forward rate and forward-rate slope are finite,
  \<open>B(0,t) = (1 - exp(-a t)) / a\<close>, \<open>G(t) = 0.5 \<sigma>\<^sup>2 B(0,t)\<^sup>2\<close>,
  \<open>dG/dt(t) = \<sigma>\<^sup>2 B(0,t) exp(-a t)\<close> and
  \<open>Theta(t) = forwardRateSlope(t) + dG/dt(t) + a (forwardRate(t) + G(t))\<close>.
\<close>

theorem Theta_formula:
  assumes a: "mean_reversion_speed e \<noteq> 0"
    and f: "get_value_for_forward_rate (bond_data e) t = Fin forwardRate"
    and s: "get_value_for_T_derivative_of_forward_rate (bond_data e) t = Fin forwardRateSlope"
  shows "B_t_T e 0 t = Inr ((1 - exp (- mean_reversion_speed e * t)) / mean_reversion_speed e)
    \<and> G e t = Inr (0.5 * (domestic_risk_free_rate_vol e)\<^sup>2
                    * ((1 - exp (- mean_reversion_speed e * t)) / mean_reversion_speed e)\<^sup>2)
    \<and> first_derivative_of_G e t
        = Inr ((domestic_risk_free_rate_vol e)\<^sup>2
               * ((1 - exp (- mean_reversion_speed e * t)) / mean_reversion_speed e)
               * exp (- mean_reversion_speed e * t))
    \<and> Theta e t
        = Inr (Fin (forwardRateSlope
                    + (domestic_risk_free_rate_vol e)\<^sup>2
                      * ((1 - exp (- mean_reversion_speed e * t)) / mean_reversion_speed e)
                      * exp (- mean_reversion_speed e * t)
                    + mean_reversion_speed e
                      * (forwardRate
                         + 0.5 * (domestic_risk_free_rate_vol e)\<^sup>2
                           * ((1 - exp (- mean_reversion_speed e * t))
                              / mean_reversion_speed e)\<^sup>2)))"
proof -
  have B: "B_t_T e 0 t
      = Inr ((1 - exp (- mean_reversion_speed e * t)) / mean_reversion_speed e)"
    using B_t_T_value [OF a, of 0 t] by simp
  have G: "G e t = Inr (0.5 * (domestic_risk_free_rate_vol e)\<^sup>2
                    * ((1 - exp (- mean_reversion_speed e * t)) / mean_reversion_speed e)\<^sup>2)"
    by (simp add: G_def B)
  have dG: "first_derivative_of_G e t
        = Inr ((domestic_risk_free_rate_vol e)\<^sup>2
               * ((1 - exp (- mean_reversion_speed e * t)) / mean_reversion_speed e)
               * exp (- mean_reversion_speed e * t))"
    by (simp add: first_derivative_of_G_def B)
  show ?thesis
    unfolding Theta_def Let_def G dG f s B by simp
qed

lemma example_fwd: "get_value_for_forward_rate (bond_data example_engine) 0 = Fin (1 / 2)"
  by (simp add: get_value_for_forward_rate_def example_engine_def example_args_def
      example_bond_def Single_time_Monte_Carlo_args.defs)

lemma example_slope:
  "get_value_for_T_derivative_of_forward_rate (bond_data example_engine) 0 = Fin (1 / 4)"
  by (simp add: get_value_for_T_derivative_of_forward_rate_def example_engine_def
      example_args_def example_bond_def Single_time_Monte_Carlo_args.defs)

lemma example_speed: "mean_reversion_speed example_engine = 1"
  by (simp add: example_engine_def example_args_def Single_time_Monte_Carlo_args.defs)

theorem Theta_formula_witness:
  "mean_reversion_speed example_engine \<noteq> 0
   \<and> get_value_for_forward_rate (bond_data example_engine) 0 = Fin (1 / 2)
   \<and> get_value_for_T_derivative_of_forward_rate (bond_data example_engine) 0 = Fin (1 / 4)
   \<and> B_t_T example_engine 0 0 = Inr 0
   \<and> G example_engine 0 = Inr 0
   \<and> first_derivative_of_G example_engine 0 = Inr 0
   \<and> Theta example_engine 0 = Inr (Fin (3 / 4))"
  using Theta_formula [of example_engine 0 "1 / 2" "1 / 4"] example_fwd example_slope
  by (simp add: example_speed)


section \<open>Reading the lists\<close>

lemma py_index_nat: "py_index len (int k) = (if k < len then Some k else None)"
  by (simp add: py_index_def)

lemma py_get_nat: "py_get xs (int k) = (if k < length xs then Inr (xs ! k) else Inl IndexError)"
  by (simp add: py_get_def py_index_nat)

lemma py_set_nat:
  "py_set xs (int k) v = (if k < length xs then Inr (xs[k := v]) else Inl IndexError)"
  by (simp add: py_set_def py_index_nat)

lemma py_int_nonneg: "0 \<le> x \<Longrightarrow> x < 2 ^ 1024 \<Longrightarrow> py_int x = Inr \<lfloor>x\<rfloor>"
  by (simp add: py_int_def)

text \<open>Truncation and the floor give the same range of indices.\<close>

lemma py_int_finite: "\<bar>x\<bar> < 2 ^ 1024 \<Longrightarrow> \<exists>k. py_int x = Inr k \<and> nat k = nat \<lfloor>x\<rfloor>"
proof (cases "0 \<le> x")
  case True
  assume "\<bar>x\<bar> < 2 ^ 1024"
  with True show ?thesis by (simp add: py_int_def)
next
  case False
  assume fin: "\<bar>x\<bar> < 2 ^ 1024"
  from False have "\<lceil>x\<rceil> \<le> 0" and "\<lfloor>x\<rfloor> \<le> 0"
    by (simp_all add: ceiling_le_iff floor_le_iff)
  with False fin show ?thesis by (simp add: py_int_def)
qed

text \<open>
  The time steps of one year in 93 steps, of three years in 1000 steps and of one year in
  5 steps, and the quotients of the maturity by them: the first is just below 93, the
  other two are exactly 1000 and 5.
\<close>

lemma double_time_steps:
  "fl (1 / 93) = 3099251356470019 / 2 ^ 58"
  "fl (1 / (3099251356470019 / 2 ^ 58)) = 6544293208522751 / 2 ^ 46"
  "fl (3 / 1000) = 3458764513820541 / 2 ^ 60"
  "fl (3 / (3458764513820541 / 2 ^ 60)) = 1000"
  "fl (1 / 5) = 3602879701896397 / 2 ^ 54"
  "fl (1 / (3602879701896397 / 2 ^ 54)) = 5"
proof -
  show "fl (1 / 93) = 3099251356470019 / 2 ^ 58"
    using fl_eqI [of "- 7" "1 / 93" "1 / 2 ^ 59" 6198502712940038]
    by (simp add: power_int_minus_divide)
  show "fl (1 / (3099251356470019 / 2 ^ 58)) = 6544293208522751 / 2 ^ 46"
    using fl_eqI [of 6 "1 / (3099251356470019 / 2 ^ 58)" "1 / 2 ^ 46" 6544293208522751]
    by (simp add: power_int_minus_divide)
  show "fl (3 / 1000) = 3458764513820541 / 2 ^ 60"
    using fl_eqI [of "- 9" "3 / 1000" "1 / 2 ^ 61" 6917529027641082]
    by (simp add: power_int_minus_divide)
  show "fl (3 / (3458764513820541 / 2 ^ 60)) = 1000"
    using fl_eqI [of 9 "3 / (3458764513820541 / 2 ^ 60)" "1 / 2 ^ 43" 8796093022208000]
    by (simp add: power_int_minus_divide)
  show "fl (1 / 5) = 3602879701896397 / 2 ^ 54"
    using fl_eqI [of "- 3" "1 / 5" "1 / 2 ^ 55" 7205759403792794]
    by (simp add: power_int_minus_divide)
  show "fl (1 / (3602879701896397 / 2 ^ 54)) = 5"
    using fl_eqI [of 2 "1 / (3602879701896397 / 2 ^ 54)" "1 / 2 ^ 50" 5629499534213120]
    by (simp add: power_int_minus_divide)
qed

lemma double_quotients:
  "fl (1 / fl (1 / 93)) = 6544293208522751 / 2 ^ 46"
  "fl (3 / fl (3 / 1000)) = 1000"
  "fl (1 / fl (1 / 5)) = 5"
  "fl (1 / 93) \<noteq> 0" "fl (3 / 1000) \<noteq> 0" "fl (1 / 5) \<noteq> 0"
  by (simp_all only: double_time_steps) simp_all

text \<open>\<^verbatim>\<open>int(maturity_T / timestep)\<close> for these three: 92, 1000 and 5.\<close>

lemma end_index_examples:
  "bind_err (py_float_div 1 (fl (1 / 93))) py_int = Inr 92"
  "bind_err (py_float_div 3 (fl (3 / 1000))) py_int = Inr 1000"
  "bind_err (py_float_div 1 (fl (1 / 5))) py_int = Inr 5"
  by (simp_all add: py_float_div_def py_int_def double_quotients)

lemma init_args_93: "init args_93 = Inr engine_93"
  unfolding engine_93_def
proof (rule init_value)
  show "iteration_times args_93 \<noteq> 0"
    by (simp add: args_93_def)
  show "fl (maturity_T args_93 / real_of_int (iteration_times args_93))
      = 3099251356470019 / 2 ^ 58"
    using fl_eqI [of "- 7" "1 / 93" "1 / 2 ^ 59" 6198502712940038]
    by (simp add: args_93_def example_args_def power_int_minus_divide)
  show "nat (iteration_times args_93 + 1) = 94"
    by (simp add: args_93_def)
qed

lemma engine_93_shape:
  "timestep engine_93 = 3099251356470019 / 2 ^ 58"
  "maturity_T engine_93 = 1" "iteration_times engine_93 = 93"
  "domestic_risk_free_rate_list engine_93 = replicate 94 (Fin 0)"
  "nikkei_price_list engine_93 = replicate 94 (Fin 0)"
  "timestep engine_93_unit_rates = 3099251356470019 / 2 ^ 58"
  "domestic_risk_free_rate_list engine_93_unit_rates = replicate 94 (Fin 1)"
  by (simp_all add: engine_93_unit_rates_def engine_93_def args_93_def example_args_def
      Single_time_Monte_Carlo_args.defs Single_time_Monte_Carlo.defs)

lemma engine_93_quotient:
  "fl (1 / timestep engine_93) = 6544293208522751 / 2 ^ 46"
  "fl (1 / timestep engine_93_unit_rates) = 6544293208522751 / 2 ^ 46"
  using double_time_steps(2) by (simp_all only: engine_93_shape)


section \<open>Discounting\<close>

lemma df_loop_Fin:
  assumes "domestic_risk_free_rate_list e = map Fin rs"
    and "\<forall>i \<in> set is. i < length rs"
  shows "df_loop e is (Fin s)
    = Inr (Fin (s + (\<Sum>i\<leftarrow>is. rs ! i * timestep e)))"
  using assms(2)
proof (induction "is" arbitrary: s)
  case Nil
  then show ?case by simp
next
  case (Cons i "is")
  then show ?case
    by (simp add: assms(1) py_get_nat add.assoc)
qed

text \<open>
  Claim C4. On a path of finite short rates \<open>rs\<close>, with a non-zero time step and
  \<open>end = floor(T / timestep)\<close> not beyond the path, \<open>discount_factor(T)\<close> is
  \<open>exp(- \<Sum>i<end. rs[i] * timestep)\<close>, with no floor or cap; and it is exactly 1 when
  every short rate of the path is 0. The quotient \<open>T / timestep\<close> is the one the program
  computes, the double nearest to the quotient of \<open>T\<close> by the stored time step (where it
  overflows, \<^verbatim>\<open>int\<close> raises OverflowError).
\<close>

theorem discount_factor_left_riemann_sum:
  assumes path: "domestic_risk_free_rate_list e = map Fin rs"
    and dt: "timestep e \<noteq> 0"
    and fin: "\<bar>fl (T / timestep e)\<bar> < 2 ^ 1024"
    and len: "nat \<lfloor>fl (T / timestep e)\<rfloor> \<le> length rs"
  shows "discount_factor e T
      = Inr (Fin (exp (- (\<Sum>i<nat \<lfloor>fl (T / timestep e)\<rfloor>. rs ! i * timestep e))))
    \<and> ((\<forall>r \<in> set rs. r = 0) \<longrightarrow> discount_factor e T = Inr (Fin 1))"
proof -
  let ?k = "nat \<lfloor>fl (T / timestep e)\<rfloor>"
  from py_int_finite [OF fin] obtain j
    where j: "py_int (fl (T / timestep e)) = Inr j" and jk: "nat j = ?k"
    by blast
  have "\<forall>i \<in> set [0..<?k]. i < length rs"
    using len by simp
  then have "df_loop e [0..<?k] (Fin 0)
      = Inr (Fin (0 + (\<Sum>i\<leftarrow>[0..<?k]. rs ! i * timestep e)))"
    by (rule df_loop_Fin [OF path])
  also have "(\<Sum>i\<leftarrow>[0..<?k]. rs ! i * timestep e) = (\<Sum>i<?k. rs ! i * timestep e)"
    by (simp add: interv_sum_list_conv_sum_set_nat lessThan_atLeast0)
  finally have loop: "df_loop e [0..<?k] (Fin 0)
      = Inr (Fin (\<Sum>i<?k. rs ! i * timestep e))"
    by simp
  have eq: "discount_factor e T = Inr (Fin (exp (- (\<Sum>i<?k. rs ! i * timestep e))))"
    using dt by (simp add: discount_factor_def py_float_div_def j jk loop)
  have "discount_factor e T = Inr (Fin 1)" if zero: "\<forall>r \<in> set rs. r = 0"
  proof -
    have "rs ! i * timestep e = 0" if "i < ?k" for i
      using that len zero by (simp add: nth_mem)
    then have "(\<Sum>i<?k. rs ! i * timestep e) = 0"
      by (intro sum.neutral) simp
    with eq show ?thesis by simp
  qed
  with eq show ?thesis by blast
qed

text \<open>
  For one year in 93 steps, \<open>discount_factor(1)\<close> sums the first 92 of the 93 steps,
  the quotient of the maturity by the time step being \<^verbatim>\<open>92.99999999999999\<close>.
\<close>

theorem discount_factor_left_riemann_sum_witness:
  "domestic_risk_free_rate_list engine_93_unit_rates = map Fin (replicate 94 1)
   \<and> timestep engine_93_unit_rates \<noteq> 0
   \<and> \<bar>fl (1 / timestep engine_93_unit_rates)\<bar> < 2 ^ 1024
   \<and> nat \<lfloor>fl (1 / timestep engine_93_unit_rates)\<rfloor> = 92
   \<and> nat \<lfloor>fl (1 / timestep engine_93_unit_rates)\<rfloor> \<le> length (replicate 94 (1 :: real))
   \<and> discount_factor engine_93_unit_rates 1
       = Inr (Fin (exp (- (92 * (3099251356470019 / 2 ^ 58)))))
   \<and> discount_factor engine_93 1 = Inr (Fin 1)"
proof -
  have path: "domestic_risk_free_rate_list engine_93_unit_rates = map Fin (replicate 94 1)"
    and path0: "domestic_risk_free_rate_list engine_93 = map Fin (replicate 94 0)"
    by (simp_all add: engine_93_shape)
  have dt: "timestep engine_93_unit_rates \<noteq> 0" and dt0: "timestep engine_93 \<noteq> 0"
    by (simp_all add: engine_93_shape)
  have fin: "\<bar>fl (1 / timestep engine_93_unit_rates)\<bar> < 2 ^ 1024"
    and fin0: "\<bar>fl (1 / timestep engine_93)\<bar> < 2 ^ 1024"
    by (simp_all add: engine_93_quotient)
  have k: "nat \<lfloor>fl (1 / timestep engine_93_unit_rates)\<rfloor> = 92"
    and k0: "nat \<lfloor>fl (1 / timestep engine_93)\<rfloor> = 92"
    by (simp_all add: engine_93_quotient)
  have len: "nat \<lfloor>fl (1 / timestep engine_93_unit_rates)\<rfloor> \<le> length (replicate 94 (1 :: real))"
    and len0: "nat \<lfloor>fl (1 / timestep engine_93)\<rfloor> \<le> length (replicate 94 (0 :: real))"
    by (simp_all add: k k0)
  from discount_factor_left_riemann_sum [OF path dt fin len, THEN conjunct1]
  have "discount_factor engine_93_unit_rates 1
      = Inr (Fin (exp (- (\<Sum>i<92. replicate 94 1 ! i * timestep engine_93_unit_rates))))"
    by (simp only: k)
  moreover have "(\<Sum>i<92. replicate 94 1 ! i * timestep engine_93_unit_rates)
      = (\<Sum>i<92 :: nat. 3099251356470019 / 2 ^ 58)"
    by (intro sum.cong refl) (simp add: engine_93_shape)
  ultimately have d: "discount_factor engine_93_unit_rates 1
       = Inr (Fin (exp (- (92 * (3099251356470019 / 2 ^ 58)))))"
    by simp
  from discount_factor_left_riemann_sum [OF path0 dt0 fin0 len0, THEN conjunct2]
  have d0: "discount_factor engine_93 1 = Inr (Fin 1)"
    by simp
  from path dt fin k len d d0 show ?thesis by (simp only: simp_thms)
qed


section \<open>Index bounds\<close>

lemma df_loop_in_range:
  "\<forall>i \<in> set is. i < length (domestic_risk_free_rate_list e) \<Longrightarrow> \<exists>v. df_loop e is s = Inr v"
  by (induction "is" arbitrary: s) (simp_all add: py_get_nat)

lemma init_tiny_args: "init tiny_args = Inr tiny_engine"
  unfolding tiny_engine_def
proof (rule init_value)
  show "iteration_times tiny_args \<noteq> 0"
    by (simp add: tiny_args_def)
  show "fl (maturity_T tiny_args / real_of_int (iteration_times tiny_args)) = 1 / 2 ^ 1074"
    using fl_eqI [of "- 1074" "5 / 2 ^ 1074 / 4" "1 / 2 ^ 1074" 1]
    by (simp add: tiny_args_def example_args_def power_int_minus_divide)
  show "nat (iteration_times tiny_args + 1) = 5"
    by (simp add: tiny_args_def)
qed

lemma tiny_engine_shape:
  "timestep tiny_engine = 1 / 2 ^ 1074" "maturity_T tiny_engine = 5 / 2 ^ 1074"
  "iteration_times tiny_engine = 4"
  "domestic_risk_free_rate_list tiny_engine = replicate 5 (Fin 0)"
  "nikkei_price_list tiny_engine = replicate 5 (Fin 0)"
  by (simp_all add: tiny_engine_def tiny_args_def example_args_def
      Single_time_Monte_Carlo_args.defs Single_time_Monte_Carlo.defs)

text \<open>
  Claim C10, as stated, fails in the subnormal range, where a quotient is rounded with
  a large relative error. For \<open>maturity_T = 5 * 2\<^sup>-\<^sup>1\<^sup>0\<^sup>7\<^sup>4\<close> and four steps the
  constructor stores the time step \<open>2\<^sup>-\<^sup>1\<^sup>0\<^sup>7\<^sup>4\<close> (the exact quotient is \<open>5 / 4\<close> of it),
  so that at \<open>time = maturity_T\<close> the index is 5, in lists of length 5: both read-outs
  and the payoff raise IndexError.
\<close>

theorem reads_beyond_the_path:
  "init tiny_args = Inr tiny_engine
   \<and> 1 \<le> iteration_times tiny_engine
   \<and> 0 \<le> maturity_T tiny_engine
   \<and> length (domestic_risk_free_rate_list tiny_engine) = nat (iteration_times tiny_engine + 1)
   \<and> length (nikkei_price_list tiny_engine) = nat (iteration_times tiny_engine + 1)
   \<and> bind_err (py_float_div (maturity_T tiny_engine) (timestep tiny_engine)) py_int = Inr 5
   \<and> get_domestic_risk_free_rate_at_a_specified_time tiny_engine (maturity_T tiny_engine)
       = Inl IndexError
   \<and> get_nikkei_price_at_a_specified_time tiny_engine (maturity_T tiny_engine)
       = Inl IndexError
   \<and> price_Exotic_Option_at_maturity tiny_engine = Inl IndexError"
  by (simp add: init_tiny_args tiny_engine_shape price_Exotic_Option_at_maturity_def
      get_domestic_risk_free_rate_at_a_specified_time_def
      get_nikkei_price_at_a_specified_time_def py_float_div_def py_int_def py_get_def
      py_index_def fl_small)

text \<open>
  With a time step in the normal range of the doubles, the quotient \<open>time / timestep\<close>
  is at most \<open>n + 1 / 2\<close> for \<open>0 \<le> time \<le> T\<close>: the time step is at least
  \<open>(1 - 2\<^sup>-\<^sup>5\<^sup>3) T / n\<close>, and rounding does not pass the double \<open>n + 1 / 2\<close>.
\<close>

lemma double_index_in_range:
  assumes n: "1 \<le> n" "n < 2 ^ 52"
    and norm: "2 powi (- 1022) \<le> T / real_of_int n"
    and t0: "0 \<le> time" and tT: "time \<le> T"
  shows "fl (T / real_of_int n) \<noteq> 0"
    and "0 \<le> fl (time / fl (T / real_of_int n))"
    and "fl (time / fl (T / real_of_int n)) \<le> real_of_int n + 1 / 2"
proof -
  define dt where "dt = fl (T / real_of_int n)"
  define eps :: real where "eps = 2 powi (- 53)"
  have eps: "eps = 1 / 2 ^ 53" by (simp add: eps_def power_int_minus_divide)
  have npos: "0 < real_of_int n" using n(1) by simp
  from n(2) have "n \<le> 2 ^ 52 - 1" by simp
  then have "real_of_int n \<le> real_of_int (2 ^ 52 - 1)" by (simp only: of_int_le_iff)
  then have nle: "real_of_int n \<le> 2 ^ 52 - 1" by simp
  have "(0 :: real) < 2 powi (- 1022)" by simp
  with norm have qpos: "0 < T / real_of_int n" by linarith
  with npos have Tpos: "0 < T" by (simp add: zero_less_divide_iff)
  have low: "T / real_of_int n * (1 - eps) \<le> dt"
    unfolding dt_def eps_def using norm by (rule fl_lower)
  have e1: "0 < 1 - eps" by (simp add: eps)
  from qpos e1 have lowpos: "0 < T / real_of_int n * (1 - eps)" by (rule mult_pos_pos)
  with low have dtpos: "0 < dt" by linarith
  then show "fl (T / real_of_int n) \<noteq> 0" by (simp add: dt_def)
  have q0: "0 \<le> time / dt" using t0 dtpos by simp
  then show "0 \<le> fl (time / fl (T / real_of_int n))"
    unfolding dt_def by (rule fl_nonneg)
  have "time / dt \<le> T / dt"
    using tT dtpos by (simp add: divide_right_mono)
  also have "T / dt \<le> T / (T / real_of_int n * (1 - eps))"
  proof (rule divide_left_mono)
    show "T / real_of_int n * (1 - eps) \<le> dt" by (rule low)
    show "0 \<le> T" using Tpos by simp
    show "0 < dt * (T / real_of_int n * (1 - eps))"
      using dtpos lowpos by (rule mult_pos_pos)
  qed
  also have "\<dots> = real_of_int n / (1 - eps)"
    using Tpos npos by simp
  also have "\<dots> \<le> real_of_int n + 1 / 2"
  proof -
    have "real_of_int n \<le> (real_of_int n + 1 / 2) * (1 - eps)"
      using nle by (simp add: eps algebra_simps)
    then show ?thesis using e1 by (simp add: pos_divide_le_eq)
  qed
  finally have up: "time / dt \<le> real_of_int n + 1 / 2" .
  have r: "real_of_int (2 * n + 1) * 2 powi (- 1) = real_of_int n + 1 / 2"
    by (simp add: power_int_minus_divide field_simps)
  have "fl (time / dt) \<le> real_of_int n + 1 / 2"
  proof (cases "time / dt = 0")
    case True
    then have "fl (time / dt) = 0" by (simp only: fl_0)
    with npos show ?thesis by simp
  next
    case False
    with q0 have pos: "0 < time / dt" by linarith
    have "fl (time / dt) \<le> real_of_int (2 * n + 1) * 2 powi (- 1)"
    proof (rule fl_le [OF pos])
      show "time / dt \<le> real_of_int (2 * n + 1) * 2 powi (- 1)"
        using up by (simp only: r)
      show "real_of_int (2 * n + 1) * 2 powi (- 1) < 2 powi (- 1 + 53)"
        using nle by (simp only: r) simp
      show "- 1074 \<le> (- 1 :: int)" by simp
    qed
    then show ?thesis by (simp only: r)
  qed
  then show "fl (time / fl (T / real_of_int n)) \<le> real_of_int n + 1 / 2"
    by (simp only: dt_def)
qed

text \<open>
  Claim C10, amended. On an object whose lists have length \<open>iteration_times + 1\<close> and
  whose time step is the double \<open>maturity_T / iteration_times\<close> (as the constructor
  makes it and the simulation leaves it), with \<open>1 \<le> iteration_times < 2\<^sup>5\<^sup>2\<close>,
  \<open>0 \<le> time \<le> maturity_T\<close> and the exact quotient \<open>maturity_T / iteration_times\<close>
  either 0 or at least \<open>2\<^sup>-\<^sup>1\<^sup>0\<^sup>2\<^sup>2\<close>, the smallest positive normal double: for
  \<open>maturity_T = 0\<close> the division \<open>time / timestep\<close> raises ZeroDivisionError before
  any list is read; otherwise the index \<open>int(time / timestep)\<close> is a \<open>k\<close> between 0 and
  \<open>iteration_times\<close>, both read-outs return the list entry at \<open>k\<close> and the discount
  factor returns a value.
\<close>

theorem path_reads_stay_in_bounds:
  assumes n: "1 \<le> iteration_times e" and big: "iteration_times e < 2 ^ 52"
    and dt: "timestep e = fl (maturity_T e / real_of_int (iteration_times e))"
    and norm: "maturity_T e = 0
        \<or> 2 powi (- 1022) \<le> maturity_T e / real_of_int (iteration_times e)"
    and lr: "length (domestic_risk_free_rate_list e) = nat (iteration_times e + 1)"
    and ls: "length (nikkei_price_list e) = nat (iteration_times e + 1)"
    and t0: "0 \<le> time" and tT: "time \<le> maturity_T e"
  shows "(maturity_T e = 0
          \<and> get_domestic_risk_free_rate_at_a_specified_time e time = Inl ZeroDivisionError
          \<and> get_nikkei_price_at_a_specified_time e time = Inl ZeroDivisionError
          \<and> discount_factor e time = Inl ZeroDivisionError)
       \<or> (0 < maturity_T e
          \<and> (\<exists>k. py_int (fl (time / timestep e)) = Inr (int k)
                \<and> k \<le> nat (iteration_times e)
                \<and> get_domestic_risk_free_rate_at_a_specified_time e time
                    = Inr (domestic_risk_free_rate_list e ! k)
                \<and> get_nikkei_price_at_a_specified_time e time
                    = Inr (nikkei_price_list e ! k))
          \<and> (\<exists>d. discount_factor e time = Inr d))"
proof (cases "maturity_T e = 0")
  case True
  then have "timestep e = 0" by (simp add: dt)
  with True show ?thesis
    by (simp add: get_domestic_risk_free_rate_at_a_specified_time_def
        get_nikkei_price_at_a_specified_time_def discount_factor_def py_float_div_def)
next
  case False
  with t0 tT have T: "0 < maturity_T e" by simp
  from False norm
  have nm: "2 powi (- 1022) \<le> maturity_T e / real_of_int (iteration_times e)" by simp
  let ?q = "fl (time / timestep e)"
  note range = double_index_in_range [OF n big nm t0 tT]
  have dt0: "timestep e \<noteq> 0" unfolding dt by (rule range(1))
  have q0: "0 \<le> ?q" unfolding dt by (rule range(2))
  have qn: "?q \<le> real_of_int (iteration_times e) + 1 / 2" unfolding dt by (rule range(3))
  from big have "real_of_int (iteration_times e) < real_of_int (2 ^ 52)"
    by (simp only: of_int_less_iff)
  with qn have "?q < 2 ^ 53" by simp
  also have "(2 :: real) ^ 53 < 2 ^ 1024" by simp
  finally have fin: "?q < 2 ^ 1024" .
  have idx: "py_int ?q = Inr \<lfloor>?q\<rfloor>" using q0 fin by (rule py_int_nonneg)
  define k where "k = nat \<lfloor>?q\<rfloor>"
  have lo: "0 \<le> \<lfloor>?q\<rfloor>" using q0 by simp
  have "?q < real_of_int (iteration_times e + 1)" using qn by simp
  then have "\<lfloor>?q\<rfloor> < iteration_times e + 1" by (simp only: floor_less_iff)
  then have hi: "\<lfloor>?q\<rfloor> \<le> iteration_times e" by simp
  have k: "py_int ?q = Inr (int k)" using lo by (simp add: idx k_def)
  have kn: "k \<le> nat (iteration_times e)" using hi by (simp add: k_def nat_mono)
  have kr: "k < length (domestic_risk_free_rate_list e)"
    and ks: "k < length (nikkei_price_list e)"
    using hi lo n by (simp_all add: lr ls k_def)
  have r: "get_domestic_risk_free_rate_at_a_specified_time e time
      = Inr (domestic_risk_free_rate_list e ! k)"
    using dt0 kr
    by (simp add: get_domestic_risk_free_rate_at_a_specified_time_def py_float_div_def k
        py_get_nat)
  have s: "get_nikkei_price_at_a_specified_time e time = Inr (nikkei_price_list e ! k)"
    using dt0 ks
    by (simp add: get_nikkei_price_at_a_specified_time_def py_float_div_def k py_get_nat)
  have "\<forall>i \<in> set [0..<k]. i < length (domestic_risk_free_rate_list e)"
    using kr by simp
  then obtain v where "df_loop e [0..<k] (Fin 0) = Inr v"
    using df_loop_in_range by blast
  then have d: "\<exists>d. discount_factor e time = Inr d"
    using dt0 by (simp add: discount_factor_def py_float_div_def k)
  from T k kn r s d show ?thesis
    by blast
qed

text \<open>One year in 93 steps, on the object as constructed, read at maturity: the index is 92.\<close>

theorem path_reads_stay_in_bounds_witness:
  "init args_93 = Inr engine_93
   \<and> 1 \<le> iteration_times engine_93 \<and> iteration_times engine_93 < 2 ^ 52
   \<and> timestep engine_93 = fl (maturity_T engine_93 / real_of_int (iteration_times engine_93))
   \<and> 2 powi (- 1022) \<le> maturity_T engine_93 / real_of_int (iteration_times engine_93)
   \<and> length (domestic_risk_free_rate_list engine_93) = nat (iteration_times engine_93 + 1)
   \<and> length (nikkei_price_list engine_93) = nat (iteration_times engine_93 + 1)
   \<and> (0 :: real) \<le> 1 \<and> 1 \<le> maturity_T engine_93
   \<and> py_int (fl (1 / timestep engine_93)) = Inr 92
   \<and> get_domestic_risk_free_rate_at_a_specified_time engine_93 1 = Inr (Fin 0)
   \<and> get_nikkei_price_at_a_specified_time engine_93 1 = Inr (Fin 0)
   \<and> (\<exists>d. discount_factor engine_93 1 = Inr d)"
proof -
  have n: "1 \<le> iteration_times engine_93" and big: "iteration_times engine_93 < 2 ^ 52"
    by (simp_all add: engine_93_shape)
  have dt: "timestep engine_93
      = fl (maturity_T engine_93 / real_of_int (iteration_times engine_93))"
    using double_time_steps(1) by (simp add: engine_93_shape)
  have nm: "2 powi (- 1022) \<le> maturity_T engine_93 / real_of_int (iteration_times engine_93)"
    by (simp add: engine_93_shape power_int_minus_divide)
  then have norm: "maturity_T engine_93 = 0
      \<or> 2 powi (- 1022) \<le> maturity_T engine_93 / real_of_int (iteration_times engine_93)"
    by (rule disjI2)
  have lr: "length (domestic_risk_free_rate_list engine_93)
      = nat (iteration_times engine_93 + 1)"
    and ls: "length (nikkei_price_list engine_93) = nat (iteration_times engine_93 + 1)"
    by (simp_all add: engine_93_shape)
  have t0: "(0 :: real) \<le> 1" and tT: "1 \<le> maturity_T engine_93"
    by (simp_all add: engine_93_shape)
  have idx: "py_int (fl (1 / timestep engine_93)) = Inr 92"
    by (simp add: engine_93_quotient py_int_def)
  have T: "maturity_T engine_93 \<noteq> 0" by (simp add: engine_93_shape)
  from path_reads_stay_in_bounds [OF n big dt norm lr ls t0 tT] T
  obtain k where k: "py_int (fl (1 / timestep engine_93)) = Inr (int k)"
    and r: "get_domestic_risk_free_rate_at_a_specified_time engine_93 1
        = Inr (domestic_risk_free_rate_list engine_93 ! k)"
    and s: "get_nikkei_price_at_a_specified_time engine_93 1
        = Inr (nikkei_price_list engine_93 ! k)"
    and d: "\<exists>d. discount_factor engine_93 1 = Inr d"
    by blast
  from k idx have "k = 92" by simp
  with r s have r': "get_domestic_risk_free_rate_at_a_specified_time engine_93 1 = Inr (Fin 0)"
    and s': "get_nikkei_price_at_a_specified_time engine_93 1 = Inr (Fin 0)"
    by (simp_all add: engine_93_shape)
  from init_args_93 n big dt nm lr ls t0 tT idx r' s' d show ?thesis
    by (simp only: simp_thms)
qed


section \<open>The rate ratio and the payoff\<close>

lemma p_t_T_value:
  assumes "mean_reversion_speed e \<noteq> 0"
  shows "p_t_T e t T r_t
    = Inr (num_mul
             (num_div (Fin (tck_bond (bond_data e) 0 T)) (Fin (tck_bond (bond_data e) 0 t)))
             (np_exp
                (num_sub
                   (num_sub
                      (num_mul
                         (Fin ((1 - exp (- mean_reversion_speed e * (T - t)))
                               / mean_reversion_speed e))
                         (get_value_for_forward_rate (bond_data e) t))
                      (Fin (1 / (4 * mean_reversion_speed e)
                            * (domestic_risk_free_rate_vol e)\<^sup>2
                            * ((1 - exp (- mean_reversion_speed e * (T - t)))
                               / mean_reversion_speed e)\<^sup>2
                            * (1 - exp (- 2 * mean_reversion_speed e * t)))))
                   (num_mul
                      (Fin ((1 - exp (- mean_reversion_speed e * (T - t)))
                            / mean_reversion_speed e))
                      r_t))))"
  using assms
  by (simp add: p_t_T_def B_t_T_def py_div_def get_value_on_cubic_spline_for_bond_prices_def)

text \<open>
  Claim C7, amended. With a non-zero mean-reversion speed, a finite short rate \<open>r_t\<close>
  read from the path at time \<open>t\<close> and \<open>price(t) \<noteq> 0\<close>: \<open>p(t,T,r_t)\<close> is the analytic
  bond price; where \<open>price(t) \<noteq> price(T)\<close> and \<open>price(T) \<noteq> 0\<close>,
  \<open>libor_rate_ratio(t,T) = price(T) / (price(t) - price(T)) * (1 / p(t,T,r_t) - 1)\<close>;
  and where \<open>price(t) = price(T)\<close> nothing is raised: the result is a non-finite value.
\<close>

theorem libor_rate_ratio_formula:
  assumes a: "mean_reversion_speed e \<noteq> 0"
    and r: "get_domestic_risk_free_rate_at_a_specified_time e t = Inr (Fin r_t)"
    and pt: "tck_bond (bond_data e) 0 t \<noteq> 0"
  shows "p_t_T e t T (Fin r_t)
      = Inr (Fin (tck_bond (bond_data e) 0 T / tck_bond (bond_data e) 0 t
                  * exp ((1 - exp (- mean_reversion_speed e * (T - t))) / mean_reversion_speed e
                           * (- tck_bond (bond_data e) 1 t / tck_bond (bond_data e) 0 t)
                         - 1 / (4 * mean_reversion_speed e)
                           * (domestic_risk_free_rate_vol e)\<^sup>2
                           * ((1 - exp (- mean_reversion_speed e * (T - t)))
                              / mean_reversion_speed e)\<^sup>2
                           * (1 - exp (- 2 * mean_reversion_speed e * t))
                         - (1 - exp (- mean_reversion_speed e * (T - t)))
                           / mean_reversion_speed e * r_t)))
    \<and> (tck_bond (bond_data e) 0 t \<noteq> tck_bond (bond_data e) 0 T
         \<and> tck_bond (bond_data e) 0 T \<noteq> 0 \<longrightarrow>
        (\<exists>p. p_t_T e t T (Fin r_t) = Inr (Fin p) \<and> p \<noteq> 0
           \<and> libor_rate_ratio e t T
               = Inr (Fin (tck_bond (bond_data e) 0 T
                           / (tck_bond (bond_data e) 0 t - tck_bond (bond_data e) 0 T)
                           * (1 / p - 1)))))
    \<and> (tck_bond (bond_data e) 0 t = tck_bond (bond_data e) 0 T \<longrightarrow>
        libor_rate_ratio e t T = Inr NonFinite)"
proof -
  let ?pt = "tck_bond (bond_data e) 0 t" and ?pT = "tck_bond (bond_data e) 0 T"
  let ?P = "?pT / ?pt
      * exp ((1 - exp (- mean_reversion_speed e * (T - t))) / mean_reversion_speed e
               * (- tck_bond (bond_data e) 1 t / ?pt)
             - 1 / (4 * mean_reversion_speed e)
               * (domestic_risk_free_rate_vol e)\<^sup>2
               * ((1 - exp (- mean_reversion_speed e * (T - t))) / mean_reversion_speed e)\<^sup>2
               * (1 - exp (- 2 * mean_reversion_speed e * t))
             - (1 - exp (- mean_reversion_speed e * (T - t))) / mean_reversion_speed e * r_t)"
  have f: "get_value_for_forward_rate (bond_data e) t = Fin (- tck_bond (bond_data e) 1 t / ?pt)"
    using pt by (simp add: get_value_for_forward_rate_def)
  have p: "p_t_T e t T (Fin r_t) = Inr (Fin ?P)"
    using pt by (simp only: p_t_T_value [OF a] f) simp
  have l: "libor_rate_ratio e t T
      = Inr (num_mul (num_div (Fin ?pT) (num_sub (Fin ?pt) (Fin ?pT)))
               (num_sub (num_div (Fin 1) (Fin ?P)) (Fin 1)))"
    by (simp add: libor_rate_ratio_def r p get_value_on_cubic_spline_for_bond_prices_def)
  have fin: "libor_rate_ratio e t T = Inr (Fin (?pT / (?pt - ?pT) * (1 / ?P - 1)))"
    and nz: "?P \<noteq> 0"
    if "?pt \<noteq> ?pT" and "?pT \<noteq> 0"
    using that pt by (simp_all add: l)
  have inf: "libor_rate_ratio e t T = Inr NonFinite" if "?pt = ?pT"
    using that by (simp add: l)
  from p fin nz inf show ?thesis by blast
qed


lemmas example_defs =
  example_simulated_def example_engine_def example_args_def example_bond_def
  flat_engine_def flat_bond_def nearly_flat_engine_def nearly_flat_bond_def
  Single_time_Monte_Carlo_args.defs Single_time_Monte_Carlo.defs

lemmas read_defs =
  get_domestic_risk_free_rate_at_a_specified_time_def get_nikkei_price_at_a_specified_time_def
  py_div_def py_float_div_def py_int_def py_get_def py_index_def fl_small

lemma example_rate_at_0:
  "get_domestic_risk_free_rate_at_a_specified_time example_simulated 0 = Inr (Fin (1 / 2))"
  by (simp add: read_defs example_defs)

lemma example_curve:
  "tck_bond (bond_data example_simulated) 0 0 = 2"
  "tck_bond (bond_data example_simulated) 0 1 = 1"
  "tck_bond (bond_data example_simulated) (Suc 0) 0 = - 1"
  "mean_reversion_speed example_simulated = 1"
  "domestic_risk_free_rate_vol example_simulated = 1"
  by (simp_all add: example_defs)

lemma example_p_t_T: "p_t_T example_simulated 0 1 (Fin (1 / 2)) = Inr (Fin (1 / 2))"
  using p_t_T_value [of example_simulated 0 1 "Fin (1 / 2)"]
  by (simp add: example_curve get_value_for_forward_rate_def)

lemma flat_rate_at_0:
  "get_domestic_risk_free_rate_at_a_specified_time flat_engine 0 = Inr (Fin (1 / 2))"
  by (simp add: read_defs example_defs)

lemma flat_curve:
  "tck_bond (bond_data flat_engine) 0 x = 1"
  "mean_reversion_speed flat_engine = 1"
  by (simp_all add: example_defs)

theorem libor_rate_ratio_formula_witness:
  "mean_reversion_speed example_simulated \<noteq> 0
   \<and> get_domestic_risk_free_rate_at_a_specified_time example_simulated 0 = Inr (Fin (1 / 2))
   \<and> tck_bond (bond_data example_simulated) 0 0 \<noteq> 0
   \<and> tck_bond (bond_data example_simulated) 0 0 \<noteq> tck_bond (bond_data example_simulated) 0 1
   \<and> tck_bond (bond_data example_simulated) 0 1 \<noteq> 0
   \<and> p_t_T example_simulated 0 1 (Fin (1 / 2)) = Inr (Fin (1 / 2))
   \<and> libor_rate_ratio example_simulated 0 1 = Inr (Fin 1)
   \<and> mean_reversion_speed flat_engine \<noteq> 0
   \<and> get_domestic_risk_free_rate_at_a_specified_time flat_engine 0 = Inr (Fin (1 / 2))
   \<and> tck_bond (bond_data flat_engine) 0 0 \<noteq> 0
   \<and> tck_bond (bond_data flat_engine) 0 0 = tck_bond (bond_data flat_engine) 0 1
   \<and> libor_rate_ratio flat_engine 0 1 = Inr NonFinite"
proof -
  have a: "mean_reversion_speed example_simulated \<noteq> 0"
    and pt: "tck_bond (bond_data example_simulated) 0 0 \<noteq> 0"
    and ne: "tck_bond (bond_data example_simulated) 0 0
        \<noteq> tck_bond (bond_data example_simulated) 0 1"
    and pT: "tck_bond (bond_data example_simulated) 0 1 \<noteq> 0"
    by (simp_all add: example_curve)
  from libor_rate_ratio_formula [OF a example_rate_at_0 pt, of 1] ne pT
  obtain p where p: "p_t_T example_simulated 0 1 (Fin (1 / 2)) = Inr (Fin p)"
    and lp: "libor_rate_ratio example_simulated 0 1
      = Inr (Fin (tck_bond (bond_data example_simulated) 0 1
                  / (tck_bond (bond_data example_simulated) 0 0
                     - tck_bond (bond_data example_simulated) 0 1)
                  * (1 / p - 1)))"
    by blast
  from p have "p = 1 / 2"
    by (simp add: example_p_t_T)
  with lp have l: "libor_rate_ratio example_simulated 0 1 = Inr (Fin 1)"
    by (simp add: example_curve)
  have a': "mean_reversion_speed flat_engine \<noteq> 0"
    and pt': "tck_bond (bond_data flat_engine) 0 0 \<noteq> 0"
    and eq: "tck_bond (bond_data flat_engine) 0 0 = tck_bond (bond_data flat_engine) 0 1"
    by (simp_all add: flat_curve)
  from libor_rate_ratio_formula [OF a' flat_rate_at_0 pt', of 1] eq
  have l': "libor_rate_ratio flat_engine 0 1 = Inr NonFinite"
    by blast
  from a pt ne pT l a' pt' eq l' show ?thesis
    by (simp add: example_rate_at_0 flat_rate_at_0 example_p_t_T)
qed

text \<open>
  Claim C7, as stated, fails: no error is raised for a zero or near-zero denominator.
  On the flat curve, \<open>price(0) = price(1)\<close> and the ratio is returned as a non-finite
  value; on the nearly flat curve, where the prices differ by \<open>1 / 1000000\<close>, the ratio
  is returned as 1.
\<close>

theorem libor_rate_ratio_returns_at_equal_prices:
  "tck_bond (bond_data flat_engine) 0 0 = tck_bond (bond_data flat_engine) 0 1
   \<and> libor_rate_ratio flat_engine 0 1 = Inr NonFinite
   \<and> tck_bond (bond_data nearly_flat_engine) 0 0 - tck_bond (bond_data nearly_flat_engine) 0 1
       = 1 / 1000000
   \<and> libor_rate_ratio nearly_flat_engine 0 1 = Inr (Fin 1)"
  by (simp add: libor_rate_ratio_def p_t_T_def B_t_T_def get_value_for_forward_rate_def
      get_value_on_cubic_spline_for_bond_prices_def read_defs example_defs)


lemma py_max0_nonneg: "py_max0 x = Fin v \<Longrightarrow> 0 \<le> v"
  by (cases x) auto

text \<open>
  Claim C3. Where the asset price read at maturity and the rate ratio are finite and the
  current asset price is not 0, the payoff is
  \<open>max(0, (S(T) / S(0) - strike_asset) * (strike_rate - liborRatio(T - Delta, T)))\<close>,
  the time \<open>T - Delta\<close> being the difference as the program computes it;
  and every finite payoff that \<open>price_Exotic_Option_at_maturity\<close> returns, on any object,
  is at least 0.
\<close>

theorem payoff_floored_at_zero:
  "(get_nikkei_price_at_a_specified_time e (maturity_T e) = Inr (Fin s_T)
      \<and> current_nikkei_price e \<noteq> 0
      \<and> libor_rate_ratio e (fl (maturity_T e - Delta e)) (maturity_T e) = Inr (Fin l)
    \<longrightarrow> price_Exotic_Option_at_maturity e
          = Inr (Fin (max 0 ((s_T / current_nikkei_price e - strike_price_nikkei e)
                             * (strike_price_libor e - l)))))
   \<and> (\<forall>v. price_Exotic_Option_at_maturity e = Inr (Fin v) \<longrightarrow> 0 \<le> v)"
proof (intro conjI allI impI)
  assume "get_nikkei_price_at_a_specified_time e (maturity_T e) = Inr (Fin s_T)
      \<and> current_nikkei_price e \<noteq> 0
      \<and> libor_rate_ratio e (fl (maturity_T e - Delta e)) (maturity_T e) = Inr (Fin l)"
  then show "price_Exotic_Option_at_maturity e
          = Inr (Fin (max 0 ((s_T / current_nikkei_price e - strike_price_nikkei e)
                             * (strike_price_libor e - l))))"
    by (simp add: price_Exotic_Option_at_maturity_def)
next
  fix v
  assume v: "price_Exotic_Option_at_maturity e = Inr (Fin v)"
  show "0 \<le> v"
  proof (cases "get_nikkei_price_at_a_specified_time e (maturity_T e)")
    case (Inl err)
    with v show ?thesis by (simp add: price_Exotic_Option_at_maturity_def)
  next
    case s: (Inr s)
    show ?thesis
    proof (cases "libor_rate_ratio e (fl (maturity_T e - Delta e)) (maturity_T e)")
      case (Inl err)
      with v s show ?thesis by (simp add: price_Exotic_Option_at_maturity_def)
    next
      case (Inr r)
      with v s show ?thesis
        by (auto simp add: price_Exotic_Option_at_maturity_def dest: py_max0_nonneg)
    qed
  qed
qed

lemma example_price_at_1:
  "get_nikkei_price_at_a_specified_time example_simulated 1 = Inr (Fin 3)"
  by (simp add: read_defs example_defs)

lemma example_contract:
  "maturity_T example_simulated = 1" "Delta example_simulated = 1"
  "current_nikkei_price example_simulated = 1" "strike_price_nikkei example_simulated = 1"
  "strike_price_libor example_simulated = 2"
  by (simp_all add: example_defs)

lemma example_libor: "libor_rate_ratio example_simulated 0 1 = Inr (Fin 1)"
  by (simp add: libor_rate_ratio_def example_rate_at_0 example_p_t_T example_curve
      get_value_on_cubic_spline_for_bond_prices_def)

theorem payoff_floored_at_zero_witness:
  "get_nikkei_price_at_a_specified_time example_simulated (maturity_T example_simulated)
     = Inr (Fin 3)
   \<and> current_nikkei_price example_simulated \<noteq> 0
   \<and> libor_rate_ratio example_simulated
        (fl (maturity_T example_simulated - Delta example_simulated))
        (maturity_T example_simulated)
      = Inr (Fin 1)
   \<and> price_Exotic_Option_at_maturity example_simulated = Inr (Fin 2)
   \<and> (0 :: real) \<le> 2"
  using payoff_floored_at_zero [of example_simulated 3 1]
  by (simp add: example_contract example_price_at_1 example_libor)


section \<open>The simulation loop\<close>

lemma mc_step_eq:
  "mc_step e rands i (rs, ss) =
     (if i < length rs then
        (case Theta e (real i * timestep e) of
           Inl err \<Rightarrow> Inl err
         | Inr theta \<Rightarrow>
             if Suc i < length rs then
               if Suc i < length ss then
                 Inr (rs[Suc i := next_rate e (fst (rands i)) (snd (rands i)) theta (rs ! i)],
                      ss[Suc i := next_price e (snd (rands i)) (ss ! i)])
               else Inl IndexError
             else Inl IndexError)
      else Inl IndexError)"
proof -
  have suc: "int i + 1 = int (Suc i)" by simp
  show ?thesis
    unfolding mc_step_def Let_def suc py_get_nat py_set_nat
    by (simp split: sum.splits)
qed

lemma mc_loop_append:
  "mc_loop e rands (xs @ ys) st = bind_err (mc_loop e rands xs st) (mc_loop e rands ys)"
proof (induction xs arbitrary: st)
  case Nil
  then show ?case by simp
next
  case (Cons x xs)
  show ?case
  proof (cases "mc_step e rands x st")
    case (Inl err)
    then show ?thesis by simp
  next
    case (Inr st')
    then show ?thesis by (simp add: Cons.IH)
  qed
qed

lemma mc_loop_upt_Suc:
  "mc_loop e rands [0..<Suc k] st = bind_err (mc_loop e rands [0..<k] st) (mc_step e rands k)"
proof -
  have "mc_loop e rands [k] = mc_step e rands k"
  proof
    fix st show "mc_loop e rands [k] st = mc_step e rands k st"
      by (cases "mc_step e rands k st") simp_all
  qed
  then show ?thesis by (simp add: mc_loop_append)
qed

text \<open>What a completed loop over the first \<open>k\<close> steps leaves in the lists.\<close>

lemma mc_loop_invariant:
  assumes "mc_loop e rands [0..<k] (rs, ss) = Inr (rs', ss')"
  shows "length rs' = length rs \<and> length ss' = length ss
    \<and> (0 < k \<longrightarrow> k < length rs \<and> k < length ss)
    \<and> rs' ! 0 = rs ! 0 \<and> ss' ! 0 = ss ! 0
    \<and> (\<forall>j. k < j \<longrightarrow> rs' ! j = rs ! j \<and> ss' ! j = ss ! j)
    \<and> (\<forall>i<k. \<exists>theta. Theta e (real i * timestep e) = Inr theta
          \<and> rs' ! Suc i = next_rate e (fst (rands i)) (snd (rands i)) theta (rs' ! i)
          \<and> ss' ! Suc i = next_price e (snd (rands i)) (ss' ! i))"
  using assms
proof (induction k arbitrary: rs' ss')
  case 0
  then show ?case by simp
next
  case (Suc k)
  from Suc.prems have
    "bind_err (mc_loop e rands [0..<k] (rs, ss)) (mc_step e rands k) = Inr (rs', ss')"
    by (simp only: mc_loop_upt_Suc)
  then obtain rs1 ss1 where
    loop: "mc_loop e rands [0..<k] (rs, ss) = Inr (rs1, ss1)"
    and step: "mc_step e rands k (rs1, ss1) = Inr (rs', ss')"
    by (cases "mc_loop e rands [0..<k] (rs, ss)") auto
  note IH = Suc.IH [OF loop]
  from step obtain theta where
    th: "Theta e (real k * timestep e) = Inr theta"
    and kr: "Suc k < length rs1" and ks: "Suc k < length ss1"
    and rs': "rs' = rs1[Suc k := next_rate e (fst (rands k)) (snd (rands k)) theta (rs1 ! k)]"
    and ss': "ss' = ss1[Suc k := next_price e (snd (rands k)) (ss1 ! k)]"
    by (auto simp: mc_step_eq split: if_splits sum.splits)
  have len: "length rs' = length rs" "length ss' = length ss"
    using IH by (simp_all add: rs' ss')
  have bound: "Suc k < length rs" "Suc k < length ss"
    using IH kr ks by simp_all
  have zero: "rs' ! 0 = rs ! 0" "ss' ! 0 = ss ! 0"
    using IH by (simp_all add: rs' ss')
  have rest: "rs' ! j = rs ! j \<and> ss' ! j = ss ! j" if "Suc k < j" for j
    using IH that by (simp add: rs' ss')
  have steps: "\<exists>theta. Theta e (real i * timestep e) = Inr theta
          \<and> rs' ! Suc i = next_rate e (fst (rands i)) (snd (rands i)) theta (rs' ! i)
          \<and> ss' ! Suc i = next_price e (snd (rands i)) (ss' ! i)" if "i < Suc k" for i
  proof (cases "i = k")
    case True
    with th kr ks show ?thesis by (simp add: rs' ss')
  next
    case False
    with that have "i < k" by simp
    with IH obtain theta' where "Theta e (real i * timestep e) = Inr theta'"
      and "rs1 ! Suc i = next_rate e (fst (rands i)) (snd (rands i)) theta' (rs1 ! i)"
      and "ss1 ! Suc i = next_price e (snd (rands i)) (ss1 ! i)"
      by blast
    with \<open>i < k\<close> show ?thesis by (simp add: rs' ss')
  qed
  from len bound zero rest steps show ?case by blast
qed


lemma py_set_0: "py_set xs 0 v = (if xs = [] then Inl IndexError else Inr (xs[0 := v]))"
  using py_set_nat [of xs 0 v] by simp

text \<open>What a completed call of \<open>start_monte_carlo\<close> returns.\<close>

lemma start_monte_carlo_Inr:
  assumes run: "start_monte_carlo np entropy e = Inr (g', e')"
  defines "g \<equiv> (case random_seed e of None \<Rightarrow> entropy | Some s \<Rightarrow> seed np s)"
  defines "n \<equiv> nat (iteration_times e)"
  shows "0 \<le> iteration_times e"
    and "g' = normal_next np g n"
    and "e' = e\<lparr>domestic_risk_free_rate_list := domestic_risk_free_rate_list e',
                nikkei_price_list := nikkei_price_list e'\<rparr>"
    and "length (domestic_risk_free_rate_list e') = length (domestic_risk_free_rate_list e)"
    and "length (nikkei_price_list e') = length (nikkei_price_list e)"
    and "domestic_risk_free_rate_list e' ! 0 = Fin (current_federal_funds_rate e)"
    and "nikkei_price_list e' ! 0 = Fin (current_nikkei_price e)"
    and "\<forall>i<n. \<exists>theta. Theta e (real i * timestep e) = Inr theta
          \<and> domestic_risk_free_rate_list e' ! Suc i
              = next_rate e (fst (normal_rows np g n i)) (snd (normal_rows np g n i)) theta
                  (domestic_risk_free_rate_list e' ! i)
          \<and> nikkei_price_list e' ! Suc i
              = next_price e (snd (normal_rows np g n i)) (nikkei_price_list e' ! i)"
proof -
  let ?rs = "(domestic_risk_free_rate_list e)[0 := Fin (current_federal_funds_rate e)]"
  let ?ss = "(nikkei_price_list e)[0 := Fin (current_nikkei_price e)]"
  from run have ne: "domestic_risk_free_rate_list e \<noteq> []" "nikkei_price_list e \<noteq> []"
    and nn: "0 \<le> iteration_times e"
    by (auto simp: start_monte_carlo_def py_set_0 Let_def split: if_splits)
  with run obtain rs' ss' where
    loop: "mc_loop e (normal_rows np g n) [0..<n] (?rs, ?ss) = Inr (rs', ss')"
    and res: "g' = normal_next np g n"
      "e' = e\<lparr>domestic_risk_free_rate_list := rs', nikkei_price_list := ss'\<rparr>"
    by (cases "mc_loop e (normal_rows np g n) [0..<n] (?rs, ?ss)")
      (auto simp: start_monte_carlo_def py_set_0 Let_def g_def n_def)
  note inv = mc_loop_invariant [OF loop]
  show "0 \<le> iteration_times e" by (rule nn)
  show "g' = normal_next np g n" by (rule res)
  show "e' = e\<lparr>domestic_risk_free_rate_list := domestic_risk_free_rate_list e',
                nikkei_price_list := nikkei_price_list e'\<rparr>"
    by (simp add: res)
  show "length (domestic_risk_free_rate_list e') = length (domestic_risk_free_rate_list e)"
    and "length (nikkei_price_list e') = length (nikkei_price_list e)"
    using inv by (simp_all add: res)
  show "domestic_risk_free_rate_list e' ! 0 = Fin (current_federal_funds_rate e)"
    and "nikkei_price_list e' ! 0 = Fin (current_nikkei_price e)"
    using inv ne by (simp_all add: res)
  show "\<forall>i<n. \<exists>theta. Theta e (real i * timestep e) = Inr theta
          \<and> domestic_risk_free_rate_list e' ! Suc i
              = next_rate e (fst (normal_rows np g n i)) (snd (normal_rows np g n i)) theta
                  (domestic_risk_free_rate_list e' ! i)
          \<and> nikkei_price_list e' ! Suc i
              = next_price e (snd (normal_rows np g n i)) (nikkei_price_list e' ! i)"
    using inv by (simp add: res)
qed

lemma next_rate_Fin:
  assumes "0 \<le> timestep e"
    and "(correlation_foreign_asset_and_domestic_risk_free_rate e)\<^sup>2 \<le> 1"
  shows "next_rate e epsilon1 epsilon2 (Fin th) (Fin r)
    = Fin (r + (th - mean_reversion_speed e * r) * timestep e
           + domestic_risk_free_rate_vol e * sqrt (timestep e)
             * (correlation_foreign_asset_and_domestic_risk_free_rate e * epsilon2
                + sqrt (1 - (correlation_foreign_asset_and_domestic_risk_free_rate e)\<^sup>2)
                  * epsilon1))"
  using assms by (simp add: next_rate_def np_sqrt_def)

lemma next_price_Fin:
  assumes "0 \<le> timestep e"
  shows "next_price e epsilon2 (Fin s)
    = Fin (s + s * (foreign_risk_free_rate e - nikkei_dividends e
                    - correlation_foreign_asset_and_exchange_rate e
                      * foreign_asset_vol e * exchange_rate_vol e) * timestep e
           + s * foreign_asset_vol e * sqrt (timestep e) * epsilon2)"
  using assms by (simp add: next_price_def np_sqrt_def)

text \<open>
  Claim C1. After a completed simulation, for every step \<open>i\<close> from 0 to
  \<open>iteration_times - 1\<close> with draws \<open>(epsilon1, epsilon2)\<close>, entry \<open>i + 1\<close> of each list is
  the loop body's right-hand side on entry \<open>i\<close>, with \<open>Theta(i * timestep)\<close> and the
  same \<open>epsilon2\<close> in both; on finite values, with a time step \<open>\<ge> 0\<close> and a correlation
  \<open>rho_sr\<close> in \<open>[-1, 1]\<close>, that is
  \<open>r[i+1] = r[i] + (Theta - a r[i]) dt + sigma_d sqrt(dt) (rho_sr eps2 + sqrt(1 - rho_sr\<^sup>2) eps1)\<close>
  and \<open>S[i+1] = S[i] + S[i] (r_f - q_f - rho_sx sigma_f sigma_x) dt + S[i] sigma_f sqrt(dt) eps2\<close>.
\<close>

theorem euler_maruyama_step:
  assumes run: "start_monte_carlo np entropy e = Inr (g', e')"
    and i: "i < nat (iteration_times e)"
    and rows: "normal_rows np (case random_seed e of None \<Rightarrow> entropy | Some s \<Rightarrow> seed np s)
                 (nat (iteration_times e)) i = (epsilon1, epsilon2)"
  shows "(\<exists>theta. Theta e (real i * timestep e) = Inr theta
            \<and> domestic_risk_free_rate_list e' ! Suc i
                = next_rate e epsilon1 epsilon2 theta (domestic_risk_free_rate_list e' ! i)
            \<and> nikkei_price_list e' ! Suc i
                = next_price e epsilon2 (nikkei_price_list e' ! i))
    \<and> (\<forall>th r s.
          Theta e (real i * timestep e) = Inr (Fin th)
          \<and> domestic_risk_free_rate_list e' ! i = Fin r
          \<and> nikkei_price_list e' ! i = Fin s
          \<and> 0 \<le> timestep e
          \<and> (correlation_foreign_asset_and_domestic_risk_free_rate e)\<^sup>2 \<le> 1 \<longrightarrow>
          domestic_risk_free_rate_list e' ! Suc i
            = Fin (r + (th - mean_reversion_speed e * r) * timestep e
                   + domestic_risk_free_rate_vol e * sqrt (timestep e)
                     * (correlation_foreign_asset_and_domestic_risk_free_rate e * epsilon2
                        + sqrt (1 - (correlation_foreign_asset_and_domestic_risk_free_rate e)\<^sup>2)
                          * epsilon1))
          \<and> nikkei_price_list e' ! Suc i
            = Fin (s + s * (foreign_risk_free_rate e - nikkei_dividends e
                            - correlation_foreign_asset_and_exchange_rate e
                              * foreign_asset_vol e * exchange_rate_vol e) * timestep e
                   + s * foreign_asset_vol e * sqrt (timestep e) * epsilon2))"
proof -
  from start_monte_carlo_Inr(8) [OF run] i rows
  obtain theta where th: "Theta e (real i * timestep e) = Inr theta"
    and r: "domestic_risk_free_rate_list e' ! Suc i
                = next_rate e epsilon1 epsilon2 theta (domestic_risk_free_rate_list e' ! i)"
    and s: "nikkei_price_list e' ! Suc i
                = next_price e epsilon2 (nikkei_price_list e' ! i)"
    by fastforce
  show ?thesis
  proof (intro conjI allI impI)
    show "\<exists>theta. Theta e (real i * timestep e) = Inr theta
            \<and> domestic_risk_free_rate_list e' ! Suc i
                = next_rate e epsilon1 epsilon2 theta (domestic_risk_free_rate_list e' ! i)
            \<and> nikkei_price_list e' ! Suc i
                = next_price e epsilon2 (nikkei_price_list e' ! i)"
      using th r s by blast
  next
    fix th' r' s'
    assume h: "Theta e (real i * timestep e) = Inr (Fin th')
          \<and> domestic_risk_free_rate_list e' ! i = Fin r'
          \<and> nikkei_price_list e' ! i = Fin s'
          \<and> 0 \<le> timestep e
          \<and> (correlation_foreign_asset_and_domestic_risk_free_rate e)\<^sup>2 \<le> 1"
    with th have "theta = Fin th'" by simp
    with h r show "domestic_risk_free_rate_list e' ! Suc i
            = Fin (r' + (th' - mean_reversion_speed e * r') * timestep e
                   + domestic_risk_free_rate_vol e * sqrt (timestep e)
                     * (correlation_foreign_asset_and_domestic_risk_free_rate e * epsilon2
                        + sqrt (1 - (correlation_foreign_asset_and_domestic_risk_free_rate e)\<^sup>2)
                          * epsilon1))"
      by (simp add: next_rate_Fin)
    from h s show "nikkei_price_list e' ! Suc i
            = Fin (s' + s' * (foreign_risk_free_rate e - nikkei_dividends e
                            - correlation_foreign_asset_and_exchange_rate e
                              * foreign_asset_vol e * exchange_rate_vol e) * timestep e
                   + s' * foreign_asset_vol e * sqrt (timestep e) * epsilon2)"
      by (simp add: next_price_Fin)
  qed
qed


lemma example_run: "start_monte_carlo example_np 0 example_engine = Inr (3, example_simulated)"
  by (simp add: start_monte_carlo_def mc_step_def next_rate_def next_price_def Theta_def G_def
      first_derivative_of_G_def B_t_T_def py_div_def py_set_def py_get_def py_index_def
      get_value_for_T_derivative_of_forward_rate_def get_value_for_forward_rate_def
      np_sqrt_def example_np_def example_defs)

lemma example_Theta: "Theta example_engine 0 = Inr (Fin (3 / 4))"
  by (simp add: Theta_def G_def first_derivative_of_G_def B_t_T_def py_div_def
      get_value_for_T_derivative_of_forward_rate_def get_value_for_forward_rate_def
      example_defs)

theorem euler_maruyama_step_witness:
  "start_monte_carlo example_np 0 example_engine = Inr (3, example_simulated)
   \<and> (0 :: nat) < nat (iteration_times example_engine)
   \<and> normal_rows example_np
        (case random_seed example_engine of None \<Rightarrow> 0 | Some s \<Rightarrow> seed example_np s)
        (nat (iteration_times example_engine)) 0 = (1, 2)
   \<and> Theta example_engine (real 0 * timestep example_engine) = Inr (Fin (3 / 4))
   \<and> domestic_risk_free_rate_list example_simulated ! 0 = Fin (1 / 2)
   \<and> nikkei_price_list example_simulated ! 0 = Fin 1
   \<and> 0 \<le> timestep example_engine
   \<and> (correlation_foreign_asset_and_domestic_risk_free_rate example_engine)\<^sup>2 \<le> 1
   \<and> domestic_risk_free_rate_list example_simulated ! Suc 0 = Fin (7 / 4)
   \<and> nikkei_price_list example_simulated ! Suc 0 = Fin 3"
proof -
  have i: "(0 :: nat) < nat (iteration_times example_engine)"
    by (simp add: example_defs)
  have rows: "normal_rows example_np
        (case random_seed example_engine of None \<Rightarrow> 0 | Some s \<Rightarrow> seed example_np s)
        (nat (iteration_times example_engine)) 0 = (1, 2)"
    by (simp add: example_np_def example_defs)
  have th: "Theta example_engine (real 0 * timestep example_engine) = Inr (Fin (3 / 4))"
    using example_Theta by simp
  have r: "domestic_risk_free_rate_list example_simulated ! 0 = Fin (1 / 2)"
    and s: "nikkei_price_list example_simulated ! 0 = Fin 1"
    by (simp_all add: example_simulated_def)
  have dt: "0 \<le> timestep example_engine"
    and rho: "(correlation_foreign_asset_and_domestic_risk_free_rate example_engine)\<^sup>2 \<le> 1"
    by (simp_all add: example_defs)
  from euler_maruyama_step [OF example_run i rows] th r s dt rho
  have "domestic_risk_free_rate_list example_simulated ! Suc 0
      = Fin (1 / 2 + (3 / 4 - mean_reversion_speed example_engine * (1 / 2))
                     * timestep example_engine
             + domestic_risk_free_rate_vol example_engine * sqrt (timestep example_engine)
               * (correlation_foreign_asset_and_domestic_risk_free_rate example_engine * 2
                  + sqrt (1 - (correlation_foreign_asset_and_domestic_risk_free_rate
                                 example_engine)\<^sup>2) * 1))"
    and "nikkei_price_list example_simulated ! Suc 0
      = Fin (1 + 1 * (foreign_risk_free_rate example_engine - nikkei_dividends example_engine
                      - correlation_foreign_asset_and_exchange_rate example_engine
                        * foreign_asset_vol example_engine * exchange_rate_vol example_engine)
                   * timestep example_engine
             + 1 * foreign_asset_vol example_engine * sqrt (timestep example_engine) * 2)"
    by blast+
  then have "domestic_risk_free_rate_list example_simulated ! Suc 0 = Fin (7 / 4)"
    and "nikkei_price_list example_simulated ! Suc 0 = Fin 3"
    by (simp_all add: example_defs)
  with example_run i rows th r s dt rho show ?thesis by blast
qed

section \<open>Determinism\<close>

lemma Theta_lists_irrelevant:
  "Theta (e\<lparr>domestic_risk_free_rate_list := rs, nikkei_price_list := ss\<rparr>) t = Theta e t"
  by (simp add: Theta_def G_def first_derivative_of_G_def B_t_T_def)

lemma mc_step_lists_irrelevant:
  "mc_step (e\<lparr>domestic_risk_free_rate_list := rs, nikkei_price_list := ss\<rparr>) rands i st
     = mc_step e rands i st"
  by (simp add: mc_step_def Theta_lists_irrelevant next_rate_def next_price_def)

lemma mc_loop_lists_irrelevant:
  "mc_loop (e\<lparr>domestic_risk_free_rate_list := rs, nikkei_price_list := ss\<rparr>) rands is st
     = mc_loop e rands is st"
proof (induction "is" arbitrary: st)
  case Nil
  show ?case by simp
next
  case (Cons i "is")
  show ?case
    by (cases "mc_step e rands i st") (simp_all add: mc_step_lists_irrelevant Cons.IH)
qed

text \<open>
  From step \<open>j\<close> on, the loop reads only entries up to \<open>j\<close> of lists no longer than
  \<open>n + 1\<close>: two pairs of lists that agree there give the same result.
\<close>

lemma mc_loop_cong:
  assumes "length rs2 = length rs" and "length ss2 = length ss"
    and "length rs \<le> Suc n" and "length ss \<le> Suc n"
    and "\<forall>i\<le>j. rs2 ! i = rs ! i" and "\<forall>i\<le>j. ss2 ! i = ss ! i"
  shows "mc_loop e rands [j..<n] (rs2, ss2) = mc_loop e rands [j..<n] (rs, ss)"
  using assms
proof (induction "n - j" arbitrary: j rs ss rs2 ss2)
  case 0
  then have "n \<le> j" by simp
  have "rs2 = rs"
  proof (rule nth_equalityI)
    show "length rs2 = length rs" by (rule 0)
    fix i assume "i < length rs2"
    with 0 \<open>n \<le> j\<close> have "i \<le> j" by simp
    with 0 show "rs2 ! i = rs ! i" by blast
  qed
  moreover have "ss2 = ss"
  proof (rule nth_equalityI)
    show "length ss2 = length ss" by (rule 0)
    fix i assume "i < length ss2"
    with 0 \<open>n \<le> j\<close> have "i \<le> j" by simp
    with 0 show "ss2 ! i = ss ! i" by blast
  qed
  ultimately show ?case by simp
next
  case (Suc d)
  then have jn: "j < n" by simp
  then have upt: "[j..<n] = j # [Suc j..<n]" by (rule upt_conv_Cons)
  have rj: "rs2 ! j = rs ! j" and sj: "ss2 ! j = ss ! j"
    using Suc.prems by simp_all
  show ?case
  proof (cases "mc_step e rands j (rs, ss)")
    case (Inl err)
    then have "mc_step e rands j (rs2, ss2) = Inl err"
      using Suc.prems(1,2) rj sj by (simp add: mc_step_eq split: sum.splits if_splits)
    with Inl show ?thesis by (simp add: upt)
  next
    case (Inr st)
    then obtain theta where th: "Theta e (real j * timestep e) = Inr theta"
      and kr: "Suc j < length rs" and ks: "Suc j < length ss"
      and st: "st = (rs[Suc j := next_rate e (fst (rands j)) (snd (rands j)) theta (rs ! j)],
                     ss[Suc j := next_price e (snd (rands j)) (ss ! j)])"
      by (auto simp: mc_step_eq split: if_splits sum.splits)
    let ?v = "next_rate e (fst (rands j)) (snd (rands j)) theta (rs ! j)"
    let ?w = "next_price e (snd (rands j)) (ss ! j)"
    have step2: "mc_step e rands j (rs2, ss2) = Inr (rs2[Suc j := ?v], ss2[Suc j := ?w])"
      using Suc.prems(1,2) th kr ks rj sj by (simp add: mc_step_eq)
    have d: "d = n - Suc j" using Suc.hyps(2) by simp
    have agree_r: "\<forall>i\<le>Suc j. rs2[Suc j := ?v] ! i = rs[Suc j := ?v] ! i"
      using Suc.prems(1,5) kr by (auto simp: nth_list_update le_Suc_eq)
    have agree_s: "\<forall>i\<le>Suc j. ss2[Suc j := ?w] ! i = ss[Suc j := ?w] ! i"
      using Suc.prems(2,6) ks by (auto simp: nth_list_update le_Suc_eq)
    have "mc_loop e rands [Suc j..<n] (rs2[Suc j := ?v], ss2[Suc j := ?w])
        = mc_loop e rands [Suc j..<n] (rs[Suc j := ?v], ss[Suc j := ?w])"
      using Suc.prems(1-4) agree_r agree_s by (intro Suc.hyps(1) [OF d]) simp_all
    with Inr st step2 show ?thesis by (simp add: upt)
  qed
qed


text \<open>
  The prior contents of the two lists do not matter: every entry is overwritten before
  it is read.
\<close>

lemma start_monte_carlo_cong:
  assumes e2: "e2 = e1\<lparr>domestic_risk_free_rate_list := rs2, nikkei_price_list := ss2\<rparr>"
    and lr: "length (domestic_risk_free_rate_list e1) = nat (iteration_times e1 + 1)"
    and ls: "length (nikkei_price_list e1) = nat (iteration_times e1 + 1)"
    and lr2: "length rs2 = nat (iteration_times e1 + 1)"
    and ls2: "length ss2 = nat (iteration_times e1 + 1)"
  shows "start_monte_carlo np entropy e2 = start_monte_carlo np entropy e1"
proof (cases "0 \<le> iteration_times e1")
  case False
  then have "domestic_risk_free_rate_list e1 = []" and "rs2 = []"
    using lr lr2 by simp_all
  then show ?thesis
    by (simp add: start_monte_carlo_def py_set_0 e2)
next
  case True
  define n where "n = nat (iteration_times e1)"
  have len: "nat (iteration_times e1 + 1) = Suc n"
    using True by (simp add: n_def)
  let ?rs = "domestic_risk_free_rate_list e1" and ?ss = "nikkei_price_list e1"
  let ?r0 = "Fin (current_federal_funds_rate e1)" and ?s0 = "Fin (current_nikkei_price e1)"
  have ne: "?rs \<noteq> []" "?ss \<noteq> []" "rs2 \<noteq> []" "ss2 \<noteq> []"
    using lr ls lr2 ls2 len by auto
  have loop: "mc_loop e1 rands [0..<n] (rs2[0 := ?r0], ss2[0 := ?s0])
      = mc_loop e1 rands [0..<n] (?rs[0 := ?r0], ?ss[0 := ?s0])" for rands
    using lr ls lr2 ls2 len ne by (intro mc_loop_cong) simp_all
  show ?thesis
    using True ne
    by (simp add: start_monte_carlo_def py_set_0 e2 Let_def n_def [symmetric]
        mc_loop_lists_irrelevant loop)
qed

lemma start_monte_carlo_seeded:
  "random_seed e = Some s \<Longrightarrow>
   start_monte_carlo np entropy1 e = start_monte_carlo np entropy2 e"
  by (simp add: start_monte_carlo_def)

text \<open>
  Claim C6. Two objects with the same parameters and the same integer seed, whatever their
  lists held before and whatever the operating system's entropy is at each call, draw
  from the same generator state and \<open>start_monte_carlo\<close> returns the same result on both:
  the same short-rate and asset-price lists and the same generator state, or the same
  exception.
\<close>

theorem seeded_simulation_is_deterministic:
  assumes "random_seed e1 = Some s"
    and "e2 = e1\<lparr>domestic_risk_free_rate_list := rs2, nikkei_price_list := ss2\<rparr>"
    and "length (domestic_risk_free_rate_list e1) = nat (iteration_times e1 + 1)"
    and "length (nikkei_price_list e1) = nat (iteration_times e1 + 1)"
    and "length rs2 = nat (iteration_times e1 + 1)"
    and "length ss2 = nat (iteration_times e1 + 1)"
  shows "(case random_seed e2 of None \<Rightarrow> entropy2 | Some s \<Rightarrow> seed np s)
      = (case random_seed e1 of None \<Rightarrow> entropy1 | Some s \<Rightarrow> seed np s)
    \<and> start_monte_carlo np entropy2 e2 = start_monte_carlo np entropy1 e1"
proof -
  have "start_monte_carlo np entropy2 e2 = start_monte_carlo np entropy2 e1"
    using assms(2-6) by (rule start_monte_carlo_cong)
  also have "\<dots> = start_monte_carlo np entropy1 e1"
    using assms(1) by (rule start_monte_carlo_seeded)
  finally show ?thesis
    using assms(1,2) by simp
qed

theorem seeded_simulation_is_deterministic_witness:
  "random_seed example_engine = Some 1
   \<and> example_simulated
       = example_engine\<lparr>domestic_risk_free_rate_list := [Fin (1 / 2), Fin (7 / 4)],
                        nikkei_price_list := [Fin 1, Fin 3]\<rparr>
   \<and> length (domestic_risk_free_rate_list example_engine)
       = nat (iteration_times example_engine + 1)
   \<and> length (nikkei_price_list example_engine) = nat (iteration_times example_engine + 1)
   \<and> length [Fin (1 / 2), Fin (7 / 4)] = nat (iteration_times example_engine + 1)
   \<and> length [Fin 1, Fin 3 :: num] = nat (iteration_times example_engine + 1)
   \<and> start_monte_carlo example_np 5 example_simulated
       = start_monte_carlo example_np 0 example_engine
   \<and> start_monte_carlo example_np 5 example_simulated = Inr (3, example_simulated)"
proof -
  have sd: "random_seed example_engine = Some 1"
    by (simp add: example_defs)
  have upd: "example_simulated
       = example_engine\<lparr>domestic_risk_free_rate_list := [Fin (1 / 2), Fin (7 / 4)],
                        nikkei_price_list := [Fin 1, Fin 3]\<rparr>"
    by (simp add: example_simulated_def)
  have lr: "length (domestic_risk_free_rate_list example_engine)
       = nat (iteration_times example_engine + 1)"
    and ls: "length (nikkei_price_list example_engine)
       = nat (iteration_times example_engine + 1)"
    and lr2: "length [Fin (1 / 2), Fin (7 / 4)] = nat (iteration_times example_engine + 1)"
    and ls2: "length [Fin 1, Fin 3 :: num] = nat (iteration_times example_engine + 1)"
    by (simp_all add: example_defs)
  from seeded_simulation_is_deterministic [OF sd upd lr ls lr2 ls2, of 5 example_np 0]
  have eq: "start_monte_carlo example_np 5 example_simulated
       = start_monte_carlo example_np 0 example_engine"
    by blast
  with example_run have "start_monte_carlo example_np 5 example_simulated
      = Inr (3, example_simulated)"
    by simp
  with sd upd lr ls lr2 ls2 eq show ?thesis by blast
qed


section \<open>Aggregation under a fixed seed\<close>

text \<open>A seeded simulation leaves an object on which a further simulation changes nothing.\<close>

lemma start_monte_carlo_fixed:
  assumes seed: "random_seed e = Some s"
    and lr: "length (domestic_risk_free_rate_list e) = nat (iteration_times e + 1)"
    and ls: "length (nikkei_price_list e) = nat (iteration_times e + 1)"
    and run: "start_monte_carlo np entropy e = Inr (g1, e1)"
  shows "start_monte_carlo np entropy' e1 = Inr (g1, e1)"
proof -
  note res = start_monte_carlo_Inr [OF run]
  have "start_monte_carlo np entropy e1 = start_monte_carlo np entropy e"
    using res(3) lr ls res(4,5)
    by (intro start_monte_carlo_cong
        [where ?rs2.0 = "domestic_risk_free_rate_list e1"
           and ?ss2.0 = "nikkei_price_list e1"]) simp_all
  moreover have "random_seed e1 = Some s"
    using arg_cong [OF res(3), of random_seed] seed by simp
  then have "start_monte_carlo np entropy' e1 = start_monte_carlo np entropy e1"
    by (rule start_monte_carlo_seeded)
  ultimately show ?thesis using run by simp
qed


lemma simulation_loop_fixed:
  assumes fixed: "\<And>i. start_monte_carlo np (entropy i) e1 = Inr (g1, e1)"
    and price: "price_Exotic_Option_at_maturity e1 = Inr v"
  shows "simulation_loop np entropy is (e1, cols, prices)
    = Inr (e1, cols @ replicate (length is) (domestic_risk_free_rate_list e1),
           prices @ replicate (length is) v)"
proof (induction "is" arbitrary: cols prices)
  case Nil
  show ?case by simp
next
  case (Cons i "is")
  show ?case
    by (simp add: fixed price Cons.IH replicate_app_Cons_same)
qed

text \<open>
  The cumulative average of \<open>m\<close> copies of one value is constant where the multiples of
  the value are exact: for a natural multiple \<open>k * 2\<^sup>c\<close> of a power of two with
  \<open>m * k \<le> 2\<^sup>5\<^sup>3\<close>.
\<close>

lemma cumulative_average_replicate:
  assumes c: "- 1074 \<le> c" "c \<le> 970" and mk: "m * k \<le> 2 ^ 53"
  shows "cumulative_average_of_list (replicate m (Fin (real k * 2 powi c)))
    = replicate m (Fin (real k * 2 powi c))"
proof (rule nth_equalityI)
  let ?x = "real k * 2 powi c"
  show "length (cumulative_average_of_list (replicate m (Fin ?x))) = length (replicate m (Fin ?x))"
    by (simp add: cumulative_average_length)
  fix i assume "i < length (cumulative_average_of_list (replicate m (Fin ?x)))"
  then have i: "i < m" by (simp add: cumulative_average_length)
  then have tk: "take (Suc i) (replicate m (Fin ?x)) = map Fin (replicate (Suc i) ?x)"
    by (simp add: min_def)
  have grid: "\<forall>y \<in> set (replicate (Suc i) ?x). \<exists>j :: nat. y = real j * 2 powi c"
    by auto
  from i have "Suc i * k \<le> m * k" by (intro mult_le_mono1) simp
  with mk have ik: "Suc i * k \<le> 2 ^ 53" by simp
  then have "real (Suc i * k) \<le> 2 ^ 53"
    by (metis of_nat_le_iff of_nat_numeral of_nat_power)
  then have "real (Suc i * k) * 2 powi c \<le> 2 ^ 53 * 2 powi c"
    by (intro mult_right_mono) simp_all
  then have total: "sum_list (replicate (Suc i) ?x) \<le> 2 ^ 53 * 2 powi c"
    by (simp add: sum_list_replicate algebra_simps)
  have "k \<le> Suc i * k" by simp
  with ik have k: "k \<le> 2 ^ 53" by simp
  have "cumulative_average_of_list (replicate m (Fin ?x)) ! i
      = float_div (py_sum (map Fin (replicate (Suc i) ?x))) (Fin (real (Suc i)))"
    using i by (simp only: cumulative_average_nth length_replicate tk)
  also have "\<dots> = Fin (fl (sum_list (replicate (Suc i) ?x) / real (Suc i)))"
    by (rule mean_exact [OF c grid total])
  also have "sum_list (replicate (Suc i) ?x) / real (Suc i) = ?x"
    by (simp add: sum_list_replicate del: of_nat_Suc replicate_Suc)
  also have "fl ?x = ?x"
    using k c(1) by (rule fl_scaled_nat)
  finally show "cumulative_average_of_list (replicate m (Fin ?x)) ! i
      = replicate m (Fin ?x) ! i"
    using i by simp
qed

text \<open>The double \<^verbatim>\<open>1.7\<close>, the payoff \<^verbatim>\<open>2 * (1.7 - 1)\<close>, which is the double \<^verbatim>\<open>1.4\<close>.\<close>

lemma payoff_1_4:
  "fl (17 / 10) = double_1_7" "fl (14 / 10) = double_1_4" "2 * (double_1_7 - 1) = double_1_4"
proof -
  show "fl (17 / 10) = double_1_7"
    using fl_eqI [of 0 "17 / 10" "1 / 2 ^ 52" 7656119366529843]
    by (simp add: double_1_7_def power_int_minus_divide)
  show "fl (14 / 10) = double_1_4"
    using fl_eqI [of 0 "14 / 10" "1 / 2 ^ 52" 6305039478318694]
    by (simp add: double_1_4_def power_int_minus_divide)
  show "2 * (double_1_7 - 1) = double_1_4"
    by (simp add: double_1_7_def double_1_4_def)
qed

text \<open>\<^verbatim>\<open>sum([1.4] * k) / k\<close> for \<open>k\<close> from 1 to 3, step by step.\<close>

lemma sums_of_1_4:
  "float_add (Fin 0) (Fin double_1_4) = Fin double_1_4"
  "float_add (Fin double_1_4) (Fin double_1_4) = Fin (3152519739159347 / 2 ^ 50)"
  "float_add (Fin (3152519739159347 / 2 ^ 50)) (Fin double_1_4)
     = Fin (1182194902184755 / 2 ^ 48)"
  "float_div (Fin double_1_4) (Fin 1) = Fin double_1_4"
  "float_div (Fin (3152519739159347 / 2 ^ 50)) (Fin 2) = Fin double_1_4"
  "float_div (Fin (1182194902184755 / 2 ^ 48)) (Fin 3) = Fin (6305039478318693 / 2 ^ 52)"
proof -
  show "float_add (Fin 0) (Fin double_1_4) = Fin double_1_4"
    using fl_eqI [of 0 "0 + double_1_4" "1 / 2 ^ 52" 6305039478318694]
    by (simp add: float_of_real_def double_1_4_def power_int_minus_divide)
  show "float_add (Fin double_1_4) (Fin double_1_4) = Fin (3152519739159347 / 2 ^ 50)"
    using fl_eqI [of 1 "double_1_4 + double_1_4" "1 / 2 ^ 51" 6305039478318694]
    by (simp add: float_of_real_def double_1_4_def power_int_minus_divide)
  show "float_add (Fin (3152519739159347 / 2 ^ 50)) (Fin double_1_4)
     = Fin (1182194902184755 / 2 ^ 48)"
    using fl_eqI [of 2 "3152519739159347 / 2 ^ 50 + double_1_4" "1 / 2 ^ 50"
        4728779608739020]
    by (simp add: float_of_real_def double_1_4_def power_int_minus_divide)
  show "float_div (Fin double_1_4) (Fin 1) = Fin double_1_4"
    using fl_eqI [of 0 "double_1_4 / 1" "1 / 2 ^ 52" 6305039478318694]
    by (simp add: float_of_real_def double_1_4_def power_int_minus_divide)
  show "float_div (Fin (3152519739159347 / 2 ^ 50)) (Fin 2) = Fin double_1_4"
    using fl_eqI [of 0 "3152519739159347 / 2 ^ 50 / 2" "1 / 2 ^ 52" 6305039478318694]
    by (simp add: float_of_real_def double_1_4_def power_int_minus_divide)
  show "float_div (Fin (1182194902184755 / 2 ^ 48)) (Fin 3) = Fin (6305039478318693 / 2 ^ 52)"
    using fl_eqI [of 0 "1182194902184755 / 2 ^ 48 / 3" "1 / 2 ^ 52" 6305039478318693]
    by (simp add: float_of_real_def power_int_minus_divide)
qed

lemma cumulative_average_of_three:
  "cumulative_average_of_list [a, b, c]
     = [float_div (float_add (Fin 0) a) (Fin 1),
        float_div (float_add (float_add (Fin 0) a) b) (Fin 2),
        float_div (float_add (float_add (float_add (Fin 0) a) b) c) (Fin 3)]"
proof -
  have "[0..<3] = [0, 1, 2]"
    by (simp add: upt_rec numeral_3_eq_3)
  then show ?thesis
    by (simp add: cumulative_average_of_list_def py_sum_def)
qed

lemma drift_run: "start_monte_carlo example_np 0 drift_engine = Inr (3, drift_simulated)"
  by (simp add: start_monte_carlo_def mc_step_def next_rate_def next_price_def Theta_def G_def
      first_derivative_of_G_def B_t_T_def py_div_def py_set_def py_get_def py_index_def
      get_value_for_T_derivative_of_forward_rate_def get_value_for_forward_rate_def
      np_sqrt_def example_np_def drift_engine_def drift_simulated_def example_defs)

lemma drift_rerun:
  "start_monte_carlo example_np entropy drift_simulated = Inr (3, drift_simulated)"
proof -
  have "random_seed drift_engine = Some 1"
    and "length (domestic_risk_free_rate_list drift_engine)
       = nat (iteration_times drift_engine + 1)"
    and "length (nikkei_price_list drift_engine)
       = nat (iteration_times drift_engine + 1)"
    by (simp_all add: drift_engine_def example_defs)
  then show ?thesis
    using drift_run by (rule start_monte_carlo_fixed)
qed

lemma strike_price_libor_irrelevant:
  "get_nikkei_price_at_a_specified_time (e\<lparr>strike_price_libor := K\<rparr>) t
     = get_nikkei_price_at_a_specified_time e t"
  "libor_rate_ratio (e\<lparr>strike_price_libor := K\<rparr>) t T = libor_rate_ratio e t T"
  by (simp_all add: libor_rate_ratio_def p_t_T_def B_t_T_def
      get_nikkei_price_at_a_specified_time_def
      get_domestic_risk_free_rate_at_a_specified_time_def)

lemma drift_payoff: "price_Exotic_Option_at_maturity drift_simulated = Inr (Fin double_1_4)"
  by (simp add: price_Exotic_Option_at_maturity_def drift_simulated_def
      strike_price_libor_irrelevant example_contract example_price_at_1 example_libor
      double_1_4_def double_1_7_def)

text \<open>
  Claim C9, as stated, fails in its last part: the runs are identical, but their
  cumulative average is computed in doubles and need not be constant. With the rate
  strike \<^verbatim>\<open>1.7\<close> each of three seeded runs of the first instance gives the value
  \<^verbatim>\<open>1.4\<close>, and the cumulative averages are \<^verbatim>\<open>1.4\<close>, \<^verbatim>\<open>1.4\<close> and
  \<^verbatim>\<open>1.3999999999999997\<close>: the sum of three times \<^verbatim>\<open>1.4\<close> is rounded.
\<close>

theorem seeded_cumulative_average_drifts:
  "random_seed drift_engine = Some 1
   \<and> length (domestic_risk_free_rate_list drift_engine) = nat (iteration_times drift_engine + 1)
   \<and> length (nikkei_price_list drift_engine) = nat (iteration_times drift_engine + 1)
   \<and> simulation_loop example_np (\<lambda>i. i) [0..<3] (drift_engine, [], [])
       = Inr (drift_simulated,
              [[Fin (1 / 2), Fin (7 / 4)], [Fin (1 / 2), Fin (7 / 4)],
               [Fin (1 / 2), Fin (7 / 4)]],
              [Fin double_1_4, Fin double_1_4, Fin double_1_4])
   \<and> cumulative_average_of_list [Fin double_1_4, Fin double_1_4, Fin double_1_4]
       = [Fin double_1_4, Fin double_1_4, Fin (6305039478318693 / 2 ^ 52)]
   \<and> double_1_4 - 6305039478318693 / 2 ^ 52 = 1 / 2 ^ 52"
proof -
  have shape: "random_seed drift_engine = Some 1"
    "length (domestic_risk_free_rate_list drift_engine) = nat (iteration_times drift_engine + 1)"
    "length (nikkei_price_list drift_engine) = nat (iteration_times drift_engine + 1)"
    by (simp_all add: drift_engine_def example_defs)
  have "[0..<3] = [0, 1, 2]"
    by (simp add: upt_rec numeral_3_eq_3)
  then have loop: "simulation_loop example_np (\<lambda>i. i) [0..<3] (drift_engine, [], [])
       = Inr (drift_simulated,
              [[Fin (1 / 2), Fin (7 / 4)], [Fin (1 / 2), Fin (7 / 4)],
               [Fin (1 / 2), Fin (7 / 4)]],
              [Fin double_1_4, Fin double_1_4, Fin double_1_4])"
    by (simp add: drift_run drift_rerun drift_payoff)
      (simp add: drift_simulated_def example_simulated_def)
  have avg: "cumulative_average_of_list [Fin double_1_4, Fin double_1_4, Fin double_1_4]
       = [Fin double_1_4, Fin double_1_4, Fin (6305039478318693 / 2 ^ 52)]"
    by (simp only: cumulative_average_of_three sums_of_1_4)
  have diff: "double_1_4 - 6305039478318693 / 2 ^ 52 = 1 / 2 ^ 52"
    by (simp add: double_1_4_def)
  from shape loop avg diff show ?thesis by (simp only: simp_thms)
qed

text \<open>
  Claim C9, amended. On an object with an integer seed (and lists as the constructor
  makes them), every call of \<open>start_monte_carlo\<close> reseeds the generator with that seed,
  so the \<open>m\<close> runs of the aggregation loop give \<open>m\<close> times the same short-rate path and
  \<open>m\<close> times the same value \<open>v\<close>. The cumulative-average sequence is that one value
  throughout where the sums of the copies of \<open>v\<close> are exact: for \<open>v\<close> a natural multiple
  \<open>k * 2\<^sup>c\<close> of a power of two with \<open>m * k \<le> 2\<^sup>5\<^sup>3\<close> (so for \<open>v = 0\<close>).
\<close>

theorem seeded_runs_are_identical:
  assumes seed: "random_seed e = Some s"
    and lr: "length (domestic_risk_free_rate_list e) = nat (iteration_times e + 1)"
    and ls: "length (nikkei_price_list e) = nat (iteration_times e + 1)"
    and run: "simulation_loop np entropy [0..<m] (e, [], []) = Inr (e', cols, prices)"
  shows "\<exists>v. cols = replicate m (domestic_risk_free_rate_list e')
           \<and> prices = replicate m v
           \<and> (\<forall>k c. v = Fin (real k * 2 powi c) \<and> - 1074 \<le> c \<and> c \<le> 970 \<and> m * k \<le> 2 ^ 53
                \<longrightarrow> cumulative_average_of_list prices = replicate m v)"
proof (cases m)
  case 0
  with run show ?thesis by (simp add: cumulative_average_of_list_def)
next
  case (Suc j)
  then have upt: "[0..<m] = 0 # [Suc 0..<Suc j]"
    by (simp add: upt_conv_Cons)
  from run obtain g1 e1 where first: "start_monte_carlo np (entropy 0) e = Inr (g1, e1)"
    by (cases "start_monte_carlo np (entropy 0) e") (auto simp: upt)
  with run obtain v where price: "price_Exotic_Option_at_maturity e1 = Inr v"
    by (cases "price_Exotic_Option_at_maturity e1") (auto simp: upt)
  have fixed: "start_monte_carlo np (entropy i) e1 = Inr (g1, e1)" for i
    using seed lr ls first by (rule start_monte_carlo_fixed)
  have "simulation_loop np entropy [0..<m] (e, [], [])
      = simulation_loop np entropy [Suc 0..<Suc j]
          (e1, [domestic_risk_free_rate_list e1], [v])"
    by (simp add: upt first price)
  also have "\<dots> = Inr (e1, replicate (Suc j) (domestic_risk_free_rate_list e1),
                        replicate (Suc j) v)"
    using simulation_loop_fixed [of np entropy e1 g1 v, OF fixed price] by simp
  finally have "Inr (e', cols, prices)
      = (Inr (e1, replicate (Suc j) (domestic_risk_free_rate_list e1), replicate (Suc j) v)
         :: error + Single_time_Monte_Carlo \<times> num list list \<times> num list)"
    by (simp only: run)
  then have "e' = e1" and cols: "cols = replicate m (domestic_risk_free_rate_list e1)"
    and prices: "prices = replicate m v"
    by (simp_all only: Suc sum.inject prod.inject)
  have "cumulative_average_of_list prices = replicate m v"
    if "v = Fin (real k * 2 powi c) \<and> - 1074 \<le> c \<and> c \<le> 970 \<and> m * k \<le> 2 ^ 53" for k c
    using that by (simp only: prices) (simp only: cumulative_average_replicate)
  with \<open>e' = e1\<close> cols prices show ?thesis
    by blast
qed

lemma example_payoff: "price_Exotic_Option_at_maturity example_simulated = Inr (Fin 2)"
  by (simp add: price_Exotic_Option_at_maturity_def example_contract example_price_at_1
      example_libor)

lemma example_rerun:
  "start_monte_carlo example_np entropy example_simulated = Inr (3, example_simulated)"
proof -
  have "random_seed example_engine = Some 1"
    and "length (domestic_risk_free_rate_list example_engine)
       = nat (iteration_times example_engine + 1)"
    and "length (nikkei_price_list example_engine)
       = nat (iteration_times example_engine + 1)"
    by (simp_all add: example_defs)
  then show ?thesis
    using example_run by (rule start_monte_carlo_fixed)
qed

lemma example_simulated_rates:
  "domestic_risk_free_rate_list example_simulated = map Fin [1 / 2, 7 / 4]"
  by (simp add: example_simulated_def)

lemma example_aggregation:
  "simulation_loop example_np (\<lambda>i. i) [0..<3] (example_engine, [], [])
     = Inr (example_simulated,
            [[Fin (1 / 2), Fin (7 / 4)], [Fin (1 / 2), Fin (7 / 4)], [Fin (1 / 2), Fin (7 / 4)]],
            [Fin 2, Fin 2, Fin 2])"
proof -
  have "[0..<3] = [0, 1, 2]"
    by (simp add: upt_rec numeral_3_eq_3)
  then show ?thesis
    by (simp add: example_run example_rerun example_payoff example_simulated_rates)
qed

theorem seeded_runs_are_identical_witness:
  "random_seed example_engine = Some 1
   \<and> length (domestic_risk_free_rate_list example_engine)
       = nat (iteration_times example_engine + 1)
   \<and> length (nikkei_price_list example_engine) = nat (iteration_times example_engine + 1)
   \<and> simulation_loop example_np (\<lambda>i. i) [0..<3] (example_engine, [], [])
       = Inr (example_simulated,
              [[Fin (1 / 2), Fin (7 / 4)], [Fin (1 / 2), Fin (7 / 4)],
               [Fin (1 / 2), Fin (7 / 4)]],
              [Fin 2, Fin 2, Fin 2])
   \<and> Fin 2 = Fin (real 1 * 2 powi 1) \<and> - 1074 \<le> (1 :: int) \<and> (1 :: int) \<le> 970
   \<and> 3 * 1 \<le> (2 :: nat) ^ 53
   \<and> cumulative_average_of_list [Fin 2, Fin 2, Fin 2] = [Fin 2, Fin 2, Fin 2]"
proof -
  have sd: "random_seed example_engine = Some 1"
    and lr: "length (domestic_risk_free_rate_list example_engine)
       = nat (iteration_times example_engine + 1)"
    and ls: "length (nikkei_price_list example_engine)
       = nat (iteration_times example_engine + 1)"
    by (simp_all add: example_defs)
  have v: "Fin 2 = Fin (real 1 * 2 powi 1)" and c: "- 1074 \<le> (1 :: int)" "(1 :: int) \<le> 970"
    and mk: "3 * 1 \<le> (2 :: nat) ^ 53"
    by simp_all
  from seeded_runs_are_identical [OF sd lr ls example_aggregation]
  obtain w where w: "[Fin 2, Fin 2, Fin 2] = replicate 3 w"
    and avg: "\<forall>k c. w = Fin (real k * 2 powi c) \<and> - 1074 \<le> c \<and> c \<le> 970 \<and> 3 * k \<le> 2 ^ 53
                \<longrightarrow> cumulative_average_of_list [Fin 2, Fin 2, Fin 2] = replicate 3 w"
    by blast
  from w have "w = Fin 2" by (simp add: numeral_3_eq_3)
  with avg v c mk have "cumulative_average_of_list [Fin 2, Fin 2, Fin 2] = replicate 3 (Fin 2)"
    by blast
  then have "cumulative_average_of_list [Fin 2, Fin 2, Fin 2] = [Fin 2, Fin 2, Fin 2]"
    by (simp add: numeral_3_eq_3)
  with sd lr ls example_aggregation v c mk show ?thesis by (simp only: simp_thms)
qed



end
